theory Spec2Isabelle
  imports Complex_Main "HOL-Library.Sublist" "HOL-Library.AList"
begin

section \<open>Text: Python strings and the regular expressions the stages use\<close>

text \<open>
  A Python \<open>str\<close> is a sequence of Unicode code points, so a text is a list of natural
  numbers and its length counts code points, as \<open>len\<close> does. Dictionary keys, processor
  names and exception class names are plain ASCII and are kept as \<open>string\<close>.
  Python floats are modelled as real numbers.
\<close>

type_synonym ustring = "nat list"

definition ascii :: "string \<Rightarrow> ustring" where
  "ascii s = map of_char s"

subsection \<open>Python values\<close>

record QualityScore =
  overall_score :: real
  completeness_score :: real
  relevance_score :: real
  consistency_score :: real
  diversity_score :: real
  details :: "(string \<times> real) list"

text \<open>
  The values of the extension bag \<open>extra_data: Dict[str, Any]\<close>: the Python values the
  stages store there. A dictionary is an association list in insertion order, updated
  with \<open>AList.update\<close> (a new key goes last, an old key keeps its place).
\<close>

datatype pyval =
    PNone
  | PBool bool
  | PInt int
  | PFloat real
  | PStr ustring
  | PList "pyval list"
  | PDict "(string \<times> pyval) list"
  | PScore QualityScore

fun truthy :: "pyval \<Rightarrow> bool" where
  "truthy PNone = False"
| "truthy (PBool b) = b"
| "truthy (PInt i) = (i \<noteq> 0)"
| "truthy (PFloat r) = (r \<noteq> 0)"
| "truthy (PStr s) = (s \<noteq> [])"
| "truthy (PList xs) = (xs \<noteq> [])"
| "truthy (PDict d) = (d \<noteq> [])"
| "truthy (PScore q) = True"

text \<open>
  An exception is its class name and its message \<open>str(e)\<close>.
\<close>

datatype pyexn = PyExn (exn_class: string) (exn_msg: ustring)

text \<open>
  What Python takes from outside the repository: the Unicode database (for code points
  that are neither ASCII nor CJK ideographs), the optional NLP libraries, the hash
  function and the random generator. \<open>None\<close> for a library means that its import failed
  (\<open>JIEBA_SUPPORT\<close>, \<open>SPACY_SUPPORT\<close> false, or the spaCy model missing); a library call
  that returns \<open>None\<close> raised an exception. \<open>numpy_imported\<close> says whether the guarded
  \<open>import numpy as np\<close> of the Evaluator succeeded; if not, the name \<open>np\<close> is undefined. \<open>md5_of_text t\<close> is
  \<open>hashlib.md5(t.encode()).hexdigest()\<close>, which raises \<open>UnicodeEncodeError\<close> when the text
  cannot be encoded; \<open>random_draw k\<close> is the \<open>k\<close>-th number the random generator draws;
  \<open>str_of_value v\<close> is \<open>str(v)\<close> for a value that is not a string.
  \<open>logger_start_time\<close> is the read \<open>logger._core.start_time\<close> of the Enhancer and the
  Evaluator: the value of the attribute or, when the object has no such attribute, the
  \<open>AttributeError\<close> the read raises. The \<open>Core\<close> object of loguru defines no attribute
  \<open>start_time\<close>, so with loguru the read raises (\<open>loguru_start_time\<close> below).
\<close>

record Token =
  tok_text :: ustring
  is_stop :: bool
  is_punct :: bool
  is_space_tok :: bool

record runtime =
  uni_word :: "nat \<Rightarrow> bool"
  uni_digit :: "nat \<Rightarrow> bool"
  uni_lower :: "nat \<Rightarrow> ustring"
  jieba_lcut :: "(ustring \<Rightarrow> ustring list option) option"
  pseg_cut :: "(ustring \<Rightarrow> (ustring \<times> ustring) list option) option"
  nlp_en :: "(ustring \<Rightarrow> Token list option) option"
  numpy_imported :: bool
  md5_of_text :: "ustring \<Rightarrow> pyexn + string"
  logger_start_time :: "pyexn + pyval"
  str_of_value :: "pyval \<Rightarrow> ustring"
  random_draw :: "nat \<Rightarrow> nat"

subsection \<open>Character classes\<close>

definition is_cjk :: "nat \<Rightarrow> bool" where
  \<comment> \<open>the class of U+4E00 to U+9FFF\<close>
  "is_cjk c = (19968 \<le> c \<and> c \<le> 40959)"

definition is_cjk_ext_a :: "nat \<Rightarrow> bool" where
  \<comment> \<open>the class of U+3400 to U+4DBF\<close>
  "is_cjk_ext_a c = (13312 \<le> c \<and> c \<le> 19903)"

definition is_upper_ascii :: "nat \<Rightarrow> bool" where
  "is_upper_ascii c = (65 \<le> c \<and> c \<le> 90)"

definition is_lower_ascii :: "nat \<Rightarrow> bool" where
  "is_lower_ascii c = (97 \<le> c \<and> c \<le> 122)"

definition is_alpha_ascii :: "nat \<Rightarrow> bool" where
  \<comment> \<open>\<open>[a-zA-Z]\<close>\<close>
  "is_alpha_ascii c = (is_upper_ascii c \<or> is_lower_ascii c)"

definition is_digit_ascii :: "nat \<Rightarrow> bool" where
  \<comment> \<open>\<open>[0-9]\<close>\<close>
  "is_digit_ascii c = (48 \<le> c \<and> c \<le> 57)"

definition fullwidth_punct :: "nat list" where
  \<comment> \<open>the ideographic and fullwidth punctuation marks the source names:
      U+3002, U+300A, U+300B, U+3010, U+3011, U+FF01, U+FF08, U+FF09, U+FF0C, U+FF1A,
      U+FF1B, U+FF1F\<close>
  "fullwidth_punct =
     [12290, 12298, 12299, 12304, 12305, 65281, 65288, 65289, 65292, 65306, 65307, 65311]"

definition is_space :: "nat \<Rightarrow> bool" where
  \<comment> \<open>\<open>\s\<close> and \<open>str.isspace\<close>: the whitespace of Unicode\<close>
  "is_space c = (c \<in> set [9, 10, 11, 12, 13, 28, 29, 30, 31, 32, 133, 160, 5760, 8232, 8233,
                           8239, 8287, 12288] \<or> (8192 \<le> c \<and> c \<le> 8202))"

definition is_digit :: "runtime \<Rightarrow> nat \<Rightarrow> bool" where
  \<comment> \<open>\<open>\d\<close>: a decimal digit of any script\<close>
  "is_digit E c =
     (if c < 128 then is_digit_ascii c
      else if is_cjk c \<or> is_cjk_ext_a c \<or> c \<in> set fullwidth_punct \<or> is_space c then False
      else uni_digit E c)"

definition is_word :: "runtime \<Rightarrow> nat \<Rightarrow> bool" where
  \<comment> \<open>\<open>\w\<close>: alphanumeric in Unicode, or the underscore\<close>
  "is_word E c =
     (if c < 128 then is_alpha_ascii c \<or> is_digit_ascii c \<or> c = 95
      else if is_cjk c \<or> is_cjk_ext_a c then True
      else if c \<in> set fullwidth_punct \<or> is_space c then False
      else uni_word E c)"

definition ci_extra :: "nat \<Rightarrow> bool" where
  \<comment> \<open>the four code points beyond ASCII that a letter class matches under
      \<open>re.IGNORECASE\<close>: U+0130, U+0131, U+017F, U+212A\<close>
  "ci_extra c = (c \<in> set [304, 305, 383, 8490])"

definition lower_char :: "runtime \<Rightarrow> nat \<Rightarrow> ustring" where
  "lower_char E c =
     (if is_upper_ascii c then [c + 32]
      else if c < 128 \<or> is_cjk c \<or> is_cjk_ext_a c \<or> c \<in> set fullwidth_punct \<or> is_space c
      then [c]
      else uni_lower E c)"

definition str_lower :: "runtime \<Rightarrow> ustring \<Rightarrow> ustring" where
  \<comment> \<open>\<open>str.lower\<close>\<close>
  "str_lower E s = concat (map (lower_char E) s)"

definition py_strip :: "ustring \<Rightarrow> ustring" where
  \<comment> \<open>\<open>str.strip()\<close>\<close>
  "py_strip s = rev (dropWhile is_space (rev (dropWhile is_space s)))"

fun py_replace_go :: "ustring \<Rightarrow> ustring \<Rightarrow> nat \<Rightarrow> ustring \<Rightarrow> ustring" where
  \<comment> \<open>the third argument counts the characters of a match still to be skipped\<close>
  "py_replace_go old new k [] = []"
| "py_replace_go old new (Suc k) (c # cs) = py_replace_go old new k cs"
| "py_replace_go old new 0 (c # cs) =
     (if prefix old (c # cs) then new @ py_replace_go old new (length old - 1) cs
      else c # py_replace_go old new 0 cs)"

definition py_replace :: "ustring \<Rightarrow> ustring \<Rightarrow> ustring \<Rightarrow> ustring" where
  \<comment> \<open>\<open>s.replace(old, new)\<close>: every occurrence, left to right, without overlap\<close>
  "py_replace old new s =
     (if old = [] then new @ concat (map (\<lambda>c. c # new) s) else py_replace_go old new 0 s)"

subsection \<open>Regular expressions\<close>

text \<open>
  The patterns of the source use character classes, sequence, ordered alternation,
  greedy repetition and the word boundary \<open>\b\<close>. A position is the character before it
  (if any) and the text after it; \<open>matches r p\<close> lists the positions at which a match of
  \<open>r\<close> starting at \<open>p\<close> can end, in the order in which the backtracking matcher of
  Python's \<open>re\<close> tries them, so that its head is the match \<open>re\<close> reports.
\<close>

datatype rx =
    Chr "nat \<Rightarrow> bool"
  | Seq rx rx
  | Alt rx rx
  | Rep nat "nat option" rx
  | Bnd "nat \<Rightarrow> bool"

type_synonym pos = "nat option \<times> ustring"

definition at_boundary :: "(nat \<Rightarrow> bool) \<Rightarrow> pos \<Rightarrow> bool" where
  "at_boundary w p =
     ((case fst p of None \<Rightarrow> False | Some c \<Rightarrow> w c) \<noteq>
      (case snd p of [] \<Rightarrow> False | c # _ \<Rightarrow> w c))"

primrec rep_iter :: "nat \<Rightarrow> (pos \<Rightarrow> pos list) \<Rightarrow> nat \<Rightarrow> nat option \<Rightarrow> pos \<Rightarrow> pos list" where
  "rep_iter 0 f lo hi p = (if lo = 0 then [p] else [])"
| "rep_iter (Suc n) f lo hi p =
     (if hi = Some 0 then []
      else concat (map (rep_iter n f (lo - 1) (map_option (\<lambda>h. h - 1) hi))
                       (filter (\<lambda>q. length (snd q) < length (snd p)) (f p))))
     @ (if lo = 0 then [p] else [])"

primrec matches :: "rx \<Rightarrow> pos \<Rightarrow> pos list" where
  "matches (Chr cl) p = (case snd p of [] \<Rightarrow> [] | c # cs \<Rightarrow> if cl c then [(Some c, cs)] else [])"
| "matches (Seq a b) p = concat (map (matches b) (matches a p))"
| "matches (Alt a b) p = matches a p @ matches b p"
| "matches (Rep lo hi r) p = rep_iter (length (snd p)) (matches r) lo hi p"
| "matches (Bnd w) p = (if at_boundary w p then [p] else [])"

definition match_len :: "rx \<Rightarrow> pos \<Rightarrow> nat option" where
  \<comment> \<open>the length of the match that starts at the position, if there is one\<close>
  "match_len r p =
     (case matches r p of [] \<Rightarrow> None | q # _ \<Rightarrow> Some (length (snd p) - length (snd q)))"

fun re_search_from :: "rx \<Rightarrow> nat option \<Rightarrow> ustring \<Rightarrow> bool" where
  "re_search_from r prev [] = (match_len r (prev, []) \<noteq> None)"
| "re_search_from r prev (c # cs) =
     (match_len r (prev, c # cs) \<noteq> None \<or> re_search_from r (Some c) cs)"

definition re_search :: "rx \<Rightarrow> ustring \<Rightarrow> bool" where
  \<comment> \<open>\<open>bool(re.search(r, s))\<close>\<close>
  "re_search r s = re_search_from r None s"

text \<open>
  Every pattern of the source consumes at least one character, so the scan passes over
  a position whose match is empty as it does over one without a match.
\<close>

function re_sub_from :: "rx \<Rightarrow> (ustring \<Rightarrow> ustring) \<Rightarrow> nat option \<Rightarrow> ustring \<Rightarrow> ustring" where
  "re_sub_from r f prev [] = []"
| "re_sub_from r f prev (c # cs) =
     (case match_len r (prev, c # cs) of
        None \<Rightarrow> c # re_sub_from r f (Some c) cs
      | Some n \<Rightarrow>
          if n = 0 then c # re_sub_from r f (Some c) cs
          else f (take n (c # cs))
               @ re_sub_from r f (Some (last (take n (c # cs)))) (drop n (c # cs)))"
  by pat_completeness auto
termination
  by (relation "measure (\<lambda>(r, f, prev, s). length s)") auto

definition re_sub :: "rx \<Rightarrow> (ustring \<Rightarrow> ustring) \<Rightarrow> ustring \<Rightarrow> ustring" where
  \<comment> \<open>\<open>re.sub(r, repl, s)\<close>; \<open>f\<close> gives the replacement for the matched text\<close>
  "re_sub r f s = re_sub_from r f None s"

function re_findall_from :: "rx \<Rightarrow> nat option \<Rightarrow> ustring \<Rightarrow> ustring list" where
  "re_findall_from r prev [] = []"
| "re_findall_from r prev (c # cs) =
     (case match_len r (prev, c # cs) of
        None \<Rightarrow> re_findall_from r (Some c) cs
      | Some n \<Rightarrow>
          if n = 0 then re_findall_from r (Some c) cs
          else take n (c # cs)
               # re_findall_from r (Some (last (take n (c # cs)))) (drop n (c # cs)))"
  by pat_completeness auto
termination
  by (relation "measure (\<lambda>(r, prev, s). length s)") auto

definition re_findall :: "rx \<Rightarrow> ustring \<Rightarrow> ustring list" where
  \<comment> \<open>\<open>re.findall(r, s)\<close> for a pattern without groups\<close>
  "re_findall r s = re_findall_from r None s"

function re_split_from :: "rx \<Rightarrow> nat option \<Rightarrow> ustring \<Rightarrow> ustring \<Rightarrow> ustring list" where
  \<comment> \<open>the third argument is the piece collected since the last separator\<close>
  "re_split_from r prev piece [] = [piece]"
| "re_split_from r prev piece (c # cs) =
     (case match_len r (prev, c # cs) of
        None \<Rightarrow> re_split_from r (Some c) (piece @ [c]) cs
      | Some n \<Rightarrow>
          if n = 0 then re_split_from r (Some c) (piece @ [c]) cs
          else piece # re_split_from r (Some (last (take n (c # cs)))) [] (drop n (c # cs)))"
  by pat_completeness auto
termination
  by (relation "measure (\<lambda>(r, prev, piece, s). length s)") auto

definition re_split :: "rx \<Rightarrow> ustring \<Rightarrow> ustring list" where
  \<comment> \<open>\<open>re.split(r, s)\<close> for a pattern without groups\<close>
  "re_split r s = re_split_from r None [] s"

text \<open>Shorthands for writing patterns.\<close>

definition lit :: "nat \<Rightarrow> rx" where
  "lit c = Chr (\<lambda>x. x = c)"

definition one_of :: "nat list \<Rightarrow> rx" where
  "one_of cs = Chr (\<lambda>x. x \<in> set cs)"

definition rx_plus :: "rx \<Rightarrow> rx" where
  "rx_plus r = Rep 1 None r"

definition rx_star :: "rx \<Rightarrow> rx" where
  "rx_star r = Rep 0 None r"

definition rx_opt :: "rx \<Rightarrow> rx" where
  "rx_opt r = Rep 0 (Some 1) r"

primrec seqs :: "rx list \<Rightarrow> rx" where
  \<comment> \<open>the last pattern of a non-empty list closes the sequence\<close>
  "seqs [] = Rep 0 (Some 0) (Chr (\<lambda>x. False))"
| "seqs (r # rs) = (if rs = [] then r else Seq r (seqs rs))"

definition str_rx :: "ustring \<Rightarrow> rx" where
  \<comment> \<open>a literal text\<close>
  "str_rx s = seqs (map lit s)"

primrec alts :: "rx list \<Rightarrow> rx" where
  "alts [] = Chr (\<lambda>x. False)"
| "alts (r # rs) = (if rs = [] then r else Alt r (alts rs))"


section \<open>Data model (\<open>models.py\<close>)\<close>

datatype DataType = PDF | TEXT | QA | TABLE | IMAGE | JSON | CSV | MARKDOWN

datatype ProcessingStatus = PENDING | PROCESSING | COMPLETED | FAILED | SKIPPED

datatype Language = CHINESE | ENGLISH | AUTO

text \<open>
  The wall-clock fields of the records (\<open>start_time\<close>, \<open>end_time\<close>, \<open>processing_time\<close>,
  \<open>created_at\<close>, \<open>updated_at\<close>), the random \<open>uuid4\<close> defaults and the configuration
  snapshot \<open>parameters\<close> carry no logic of the stages and are left out.
\<close>

record SourceMetadata =
  file_path :: ustring
  file_name :: ustring
  file_size :: int
  file_type :: ustring
  encoding :: "ustring option"
  hash_value :: "ustring option"

record ProcessMetadata =
  processor_name :: string
  status :: ProcessingStatus
  error_message :: "ustring option"

record DataChunk =
  chunk_id :: ustring
  content :: ustring
  data_type :: DataType
  language :: Language
  source_metadata :: "SourceMetadata option"
  process_metadata :: "ProcessMetadata list"
  extra_data :: "(string \<times> pyval) list"

definition new_chunk :: "ustring \<Rightarrow> ustring \<Rightarrow> DataChunk" where
  \<comment> \<open>\<open>DataChunk(id=cid, content=text)\<close> with the defaults of the other fields\<close>
  "new_chunk cid text =
     \<lparr>chunk_id = cid, content = text, data_type = TEXT, language = AUTO,
      source_metadata = None, process_metadata = [], extra_data = []\<rparr>"

definition add_process_metadata :: "DataChunk \<Rightarrow> ProcessMetadata \<Rightarrow> DataChunk" where
  "add_process_metadata chunk metadata =
     chunk\<lparr>process_metadata := process_metadata chunk @ [metadata]\<rparr>"

definition get_latest_status :: "DataChunk \<Rightarrow> ProcessingStatus" where
  "get_latest_status chunk =
     (if process_metadata chunk = [] then PENDING else status (last (process_metadata chunk)))"

text \<open>
  A dataclass does not check the types of its fields, so the fields of a QA pair hold
  Python values.
\<close>

record QAData =
  question :: pyval
  answer :: pyval
  qa_context :: pyval
  difficulty :: pyval
  domain :: pyval
  confidence :: pyval
  qa_metadata :: pyval

record ProcessedData =
  description :: ustring
  chunks :: "DataChunk list"
  qa_pairs :: "QAData list"
  pd_quality_score :: "QualityScore option"
  pd_metadata :: "(string \<times> pyval) list"

definition add_qa_pair :: "ProcessedData \<Rightarrow> QAData \<Rightarrow> ProcessedData" where
  "add_qa_pair pd qa = pd\<lparr>qa_pairs := qa_pairs pd @ [qa]\<rparr>"

subsection \<open>Helpers for Python's dynamic values\<close>

definition dict_get :: "(string \<times> pyval) list \<Rightarrow> string \<Rightarrow> pyval \<Rightarrow> pyval" where
  \<comment> \<open>\<open>d.get(key, default)\<close>\<close>
  "dict_get d k dflt = (case map_of d k of None \<Rightarrow> dflt | Some v \<Rightarrow> v)"

fun type_name :: "pyval \<Rightarrow> string" where
  "type_name PNone = ''NoneType''"
| "type_name (PBool b) = ''bool''"
| "type_name (PInt i) = ''int''"
| "type_name (PFloat r) = ''float''"
| "type_name (PStr s) = ''str''"
| "type_name (PList xs) = ''list''"
| "type_name (PDict d) = ''dict''"
| "type_name (PScore q) = ''QualityScore''"

definition py_len :: "pyval \<Rightarrow> pyexn + nat" where
  \<comment> \<open>\<open>len(v)\<close>\<close>
  "py_len v =
     (case v of
        PStr s \<Rightarrow> Inr (length s)
      | PList xs \<Rightarrow> Inr (length xs)
      | PDict d \<Rightarrow> Inr (length d)
      | _ \<Rightarrow> Inl (PyExn ''TypeError''
                   (ascii (''object of type '' @ [CHR 0x27] @ type_name v @ [CHR 0x27]
                           @ '' has no len()''))))"

definition attribute_error :: "string \<Rightarrow> string \<Rightarrow> pyexn" where
  "attribute_error cls attr =
     PyExn ''AttributeError''
       (ascii ([CHR 0x27] @ cls @ [CHR 0x27] @ '' object has no attribute '' @ [CHR 0x27] @ attr
               @ [CHR 0x27]))"

definition type_error :: "pyval \<Rightarrow> pyexn" where
  \<comment> \<open>the \<open>TypeError\<close> Python raises when a value has not the type an operation needs;
      its message is shortened to the name of the value's type\<close>
  "type_error v = PyExn ''TypeError'' (ascii (type_name v))"

definition key_error :: "string \<Rightarrow> pyexn" where
  \<comment> \<open>\<open>str(KeyError(k))\<close> is the key in apostrophes\<close>
  "key_error k = PyExn ''KeyError'' (ascii ([CHR 0x27] @ k @ [CHR 0x27]))"

definition py_getitem :: "pyval \<Rightarrow> string \<Rightarrow> pyexn + pyval" where
  \<comment> \<open>\<open>v[key]\<close> for a string key\<close>
  "py_getitem v k =
     (case v of
        PDict d \<Rightarrow> (case map_of d k of None \<Rightarrow> Inl (key_error k) | Some x \<Rightarrow> Inr x)
      | _ \<Rightarrow> Inl (type_error v))"

definition py_iter :: "pyval \<Rightarrow> pyexn + pyval list" where
  \<comment> \<open>the elements a \<open>for\<close> loop over the value visits\<close>
  "py_iter v =
     (case v of
        PList xs \<Rightarrow> Inr xs
      | PStr s \<Rightarrow> Inr (map (\<lambda>c. PStr [c]) s)
      | PDict d \<Rightarrow> Inr (map (\<lambda>(k, x). PStr (ascii k)) d)
      | _ \<Rightarrow> Inl (type_error v))"

definition py_slice_to :: "pyval \<Rightarrow> nat \<Rightarrow> pyexn + pyval" where
  \<comment> \<open>\<open>v[:n]\<close>\<close>
  "py_slice_to v n =
     (case v of
        PList xs \<Rightarrow> Inr (PList (take n xs))
      | PStr s \<Rightarrow> Inr (PStr (take n s))
      | _ \<Rightarrow> Inl (type_error v))"

definition py_num :: "pyval \<Rightarrow> real option" where
  "py_num v = (case v of PBool b \<Rightarrow> Some (if b then 1 else 0) | PInt i \<Rightarrow> Some (real_of_int i)
               | PFloat r \<Rightarrow> Some r | _ \<Rightarrow> None)"

definition py_eq :: "pyval \<Rightarrow> pyval \<Rightarrow> bool" where
  \<comment> \<open>\<open>a == b\<close>: numbers compare by value, everything else by structure\<close>
  "py_eq a b = (a = b \<or> (py_num a \<noteq> None \<and> py_num a = py_num b))"

definition as_text :: "pyval \<Rightarrow> pyexn + ustring" where
  \<comment> \<open>a value used where a string method needs a \<open>str\<close>\<close>
  "as_text v = (case v of PStr s \<Rightarrow> Inr s | _ \<Rightarrow> Inl (type_error v))"

definition to_str :: "runtime \<Rightarrow> pyval \<Rightarrow> ustring" where
  \<comment> \<open>\<open>str(v)\<close>\<close>
  "to_str E v = (case v of PStr s \<Rightarrow> s | _ \<Rightarrow> str_of_value E v)"

definition contains_any :: "ustring list \<Rightarrow> ustring \<Rightarrow> bool" where
  \<comment> \<open>\<open>any(p in content for p in patterns)\<close>\<close>
  "contains_any patterns text = (\<exists>p \<in> set patterns. sublist p text)"

section \<open>The skill framework (\<open>skills/base.py\<close>)\<close>

text \<open>
  A stage mutates the chunk object it is given. The single-chunk transform is therefore
  a function of the stage's state and the chunk that yields the new state and either
  the chunk it returns (\<open>Inr\<close>) or, when it raises, the exception together with the
  chunk as the transform left it (\<open>Inl\<close>). The chunks of a batch are distinct objects.
\<close>

type_synonym 's transform = "'s \<Rightarrow> DataChunk \<Rightarrow> ((pyexn \<times> DataChunk) + DataChunk) \<times> 's"

definition completed_metadata :: "string \<Rightarrow> ProcessMetadata" where
  "completed_metadata name = \<lparr>processor_name = name, status = COMPLETED, error_message = None\<rparr>"

definition error_metadata :: "string \<Rightarrow> pyexn \<Rightarrow> ProcessMetadata" where
  "error_metadata name e =
     \<lparr>processor_name = name, status = FAILED, error_message = Some (exn_msg e)\<rparr>"

fun process_batch :: "string \<Rightarrow> 's transform \<Rightarrow> 's \<Rightarrow> DataChunk list \<Rightarrow> DataChunk list \<times> 's" where
  \<comment> \<open>\<open>BaseSkill.process_batch\<close>\<close>
  "process_batch name process_single s [] = ([], s)"
| "process_batch name process_single s (chunk # data_chunks) =
     (case process_single s chunk of
        (Inr processed_chunk, s1) \<Rightarrow>
          (case process_batch name process_single s1 data_chunks of
             (processed_chunks, s2) \<Rightarrow>
               (add_process_metadata processed_chunk (completed_metadata name)
                  # processed_chunks, s2))
      | (Inl (e, chunk'), s1) \<Rightarrow>
          (case process_batch name process_single s1 data_chunks of
             (processed_chunks, s2) \<Rightarrow>
               (add_process_metadata chunk' (error_metadata name e) # processed_chunks, s2)))"

definition validate_input :: "DataChunk \<Rightarrow> bool" where
  "validate_input data_chunk = (py_strip (content data_chunk) \<noteq> [])"

record Monitor =
  processed_count :: nat
  failed_count :: nat

definition monitored_process_batch ::
  "string \<Rightarrow> 's transform \<Rightarrow> Monitor \<times> 's \<Rightarrow> DataChunk list \<Rightarrow> DataChunk list \<times> Monitor \<times> 's" where
  \<comment> \<open>\<open>MonitoredSkill.process_batch\<close>\<close>
  "monitored_process_batch name process_single ms data_chunks =
     (case process_batch name process_single (snd ms) data_chunks of
        (processed_chunks, s') \<Rightarrow>
          (processed_chunks,
           (fst ms)\<lparr>processed_count := processed_count (fst ms) + length data_chunks,
                    failed_count := failed_count (fst ms)
                      + length (filter (\<lambda>chunk. get_latest_status chunk = FAILED)
                                       processed_chunks)\<rparr>,
           s'))"

definition skill_process_metadata :: "string \<Rightarrow> ProcessingStatus \<Rightarrow> ustring option \<Rightarrow> ProcessMetadata" where
  \<comment> \<open>\<open>_create_process_metadata\<close>, the same in the three stages\<close>
  "skill_process_metadata name st message =
     \<lparr>processor_name = name, status = st, error_message = message\<rparr>"

section \<open>The Cleaner's text transforms (\<open>skills/cleaner.py\<close>)\<close>

subsection \<open>\<open>_init_cleaning_rules\<close>\<close>

definition chinese_punctuation_map :: "(ustring \<times> ustring) list" where
  \<comment> \<open>in insertion order. The last two entries are what Python reads from the source
      text: the ASCII double quote mapped to itself, and, from the two lines written with
      three apostrophes, one key that is the text between them (a colon, a space, an
      apostrophe in double quotes, a comma, a line feed and twelve spaces)\<close>
  "chinese_punctuation_map =
     [([65292], ascii '',''), ([12290], ascii ''.''), ([65281], ascii ''!''),
      ([65311], ascii ''?''), ([65307], ascii '';''), ([65306], ascii '':''),
      ([65288], ascii ''(''), ([65289], ascii '')''), ([12304], ascii ''[''),
      ([12305], ascii '']''), ([12298], ascii ''<''), ([12299], ascii ''>''),
      ([34], [34]),
      ([58, 32, 34, 39, 34, 44, 10] @ replicate 12 32, [39])]"

definition ci_alpha :: "nat \<Rightarrow> bool" where
  \<comment> \<open>\<open>[a-zA-Z]\<close> under \<open>re.IGNORECASE\<close>\<close>
  "ci_alpha c = (is_alpha_ascii c \<or> ci_extra c)"

definition ci_lit :: "nat \<Rightarrow> rx" where
  \<comment> \<open>an ASCII lower-case letter of the pattern under \<open>re.IGNORECASE\<close>; the letter s
      also matches U+017F\<close>
  "ci_lit c = Chr (\<lambda>x. x = c \<or> x + 32 = c \<or> (c = 115 \<and> x = 383))"

definition rx_whitespace :: rx where
  \<comment> \<open>\<open>\s+\<close>\<close>
  "rx_whitespace = rx_plus (Chr is_space)"

definition rx_newlines :: rx where
  \<comment> \<open>\<open>\n+\<close>\<close>
  "rx_newlines = rx_plus (lit 10)"

definition rx_html_tag :: rx where
  \<comment> \<open>\<open><[^>]+>\<close>\<close>
  "rx_html_tag = seqs [lit 60, rx_plus (Chr (\<lambda>c. c \<noteq> 62)), lit 62]"

definition rx_url :: rx where
  \<comment> \<open>\<open>http[s]?://(?:[a-zA-Z]|[0-9]|[$-_@.&+]|[!*\\(\\),]|(?:%[0-9a-fA-F][0-9a-fA-F]))+\<close>\<close>
  "rx_url =
     seqs [ci_lit 104, ci_lit 116, ci_lit 116, ci_lit 112, rx_opt (ci_lit 115),
           lit 58, lit 47, lit 47,
           rx_plus (alts
             [Chr ci_alpha,
              Chr is_digit_ascii,
              Chr (\<lambda>c. (36 \<le> c \<and> c \<le> 95) \<or> c \<in> set (ascii ''@.&+'') \<or> ci_alpha c),
              one_of [33, 42, 92, 40, 92, 41, 44],
              seqs [lit 37, Chr (\<lambda>c. is_digit_ascii c \<or> c \<in> set (ascii ''abcdefABCDEF'')),
                    Chr (\<lambda>c. is_digit_ascii c \<or> c \<in> set (ascii ''abcdefABCDEF''))]])]"

definition rx_email :: "runtime \<Rightarrow> rx" where
  \<comment> \<open>\<open>\b[A-Za-z0-9._%+-]+@[A-Za-z0-9.-]+\.[A-Z|a-z]{2,}\b\<close>\<close>
  "rx_email E =
     seqs [Bnd (is_word E),
           rx_plus (Chr (\<lambda>c. ci_alpha c \<or> is_digit_ascii c \<or> c \<in> set (ascii ''._%+-''))),
           lit 64,
           rx_plus (Chr (\<lambda>c. ci_alpha c \<or> is_digit_ascii c \<or> c \<in> set (ascii ''.-''))),
           lit 46,
           Rep 2 None (Chr (\<lambda>c. ci_alpha c \<or> c = 124)),
           Bnd (is_word E)]"

definition rx_punct_run :: rx where
  \<comment> \<open>\<open>[.!?]{3,}\<close>\<close>
  "rx_punct_run = Rep 3 None (one_of (ascii ''.!?''))"

definition rx_digit_letter :: "runtime \<Rightarrow> rx" where
  \<comment> \<open>\<open>(\d)([a-zA-Z])\<close>\<close>
  "rx_digit_letter E = Seq (Chr (is_digit E)) (Chr ci_alpha)"

definition space_between :: "ustring \<Rightarrow> ustring" where
  \<comment> \<open>the replacement \<open>\1 \2\<close> for a match of two characters\<close>
  "space_between m = (case m of [a, b] \<Rightarrow> [a, 32, b] | _ \<Rightarrow> m)"

definition cleanup_patterns :: "runtime \<Rightarrow> (rx \<times> (ustring \<Rightarrow> ustring)) list" where
  "cleanup_patterns E =
     [(rx_whitespace, \<lambda>m. ascii '' ''),
      (rx_newlines, \<lambda>m. [10]),
      (rx_html_tag, \<lambda>m. []),
      (rx_url, \<lambda>m. []),
      (rx_email E, \<lambda>m. []),
      (rx_punct_run, \<lambda>m. ascii ''...''),
      (rx_digit_letter E, space_between)]"

record CleanerConfig =
  remove_duplicates :: bool
  normalize_whitespace :: bool
  remove_special_chars :: bool
  min_text_length :: int
  similarity_threshold :: real

subsection \<open>\<open>_basic_text_cleaning\<close>\<close>

definition contains_chinese :: "ustring \<Rightarrow> bool" where
  \<comment> \<open>\<open>_contains_chinese\<close>\<close>
  "contains_chinese text = re_search (Chr is_cjk) text"

definition rx_blanks :: rx where
  \<comment> \<open>\<open>[ \t]+\<close>\<close>
  "rx_blanks = rx_plus (one_of [32, 9])"

definition basic_text_cleaning :: "runtime \<Rightarrow> CleanerConfig \<Rightarrow> ustring \<Rightarrow> ustring" where
  "basic_text_cleaning E cfg text =
     (if text = [] then text
      else
        let cleaned = py_replace [13] [10] (py_replace [13, 10] [10] text);
            cleaned = fold (\<lambda>(pattern, replacement) t. re_sub pattern replacement t)
                           (cleanup_patterns E) cleaned;
            cleaned = (if contains_chinese cleaned
                       then fold (\<lambda>(chinese_punct, english_punct) t.
                                     py_replace chinese_punct english_punct t)
                                 chinese_punctuation_map cleaned
                       else cleaned);
            cleaned = (if normalize_whitespace cfg
                       then py_strip
                              (re_sub (Seq rx_blanks (lit 10)) (\<lambda>m. [10])
                                (re_sub (Seq (lit 10) rx_blanks) (\<lambda>m. [10])
                                  (re_sub rx_blanks (\<lambda>m. ascii '' '') cleaned)))
                       else cleaned)
        in cleaned)"

subsection \<open>\<open>_language_specific_cleaning\<close>\<close>

definition protected_terms :: "ustring list" where
  "protected_terms =
     [[27700, 25991], [27668, 35937], [38477, 38632], [24452, 27969], [33976, 21457],
      [28183, 36879], [22320, 19979, 27700], [22320, 34920, 27700], [27700, 24211],
      [22823, 22365], [22564, 38450], [27700, 38392], [27893, 31449], [28748, 28297],
      [25490, 28061], [38450, 27946], [27700, 36136], [27700, 37327], [27700, 20301],
      [27969, 37327], [27969, 36895], [21547, 27801, 37327], [28342, 35299, 27687],
      [27969, 22495], [27700, 31995], [27827, 36947], [27827, 24202], [27827, 23736],
      [27827, 21475], [19977, 35282, 27954], [27946, 27700], [26543, 27700],
      [20016, 27700], [24179, 27700], [27739, 26399], [26543, 27700, 26399],
      [20016, 27700, 26399], [27700, 24211, 35843, 24230], [27700, 36164, 28304],
      [27700, 29615, 22659], [27700, 29983, 24577], [27700, 23433, 20840],
      [27700, 31649, 29702]]"

definition chinese_text_cleaning :: "runtime \<Rightarrow> ustring \<Rightarrow> ustring" where
  \<comment> \<open>the text of the membership test is U+3002, U+FF01, U+FF1F, U+FF1B, U+FF1A\<close>
  "chinese_text_cleaning E text =
     (case jieba_lcut E of
        None \<Rightarrow> text
      | Some lcut \<Rightarrow>
          (case lcut text of
             None \<Rightarrow> text
           | Some words \<Rightarrow>
               concat (filter (\<lambda>word. word \<in> set protected_terms \<or> length word > 1
                                       \<or> sublist word [12290, 65281, 65311, 65307, 65306])
                              words)))"

definition py_join :: "ustring \<Rightarrow> ustring list \<Rightarrow> ustring" where
  \<comment> \<open>\<open>sep.join(parts)\<close>\<close>
  "py_join sep parts = (case parts of [] \<Rightarrow> [] | p # ps \<Rightarrow> p @ concat (map (\<lambda>q. sep @ q) ps))"

definition english_text_cleaning :: "runtime \<Rightarrow> ustring \<Rightarrow> ustring" where
  "english_text_cleaning E text =
     (case nlp_en E of
        None \<Rightarrow> text
      | Some nlp \<Rightarrow>
          (case nlp text of
             None \<Rightarrow> text
           | Some doc \<Rightarrow>
               py_join (ascii '' '')
                 (map tok_text
                    (filter (\<lambda>token. \<not> is_stop token \<and> \<not> is_punct token \<and> \<not> is_space_tok token
                                       \<and> length (py_strip (tok_text token)) > 0)
                            doc))))"

definition mixed_language_cleaning :: "runtime \<Rightarrow> ustring \<Rightarrow> ustring" where
  "mixed_language_cleaning E text = english_text_cleaning E (chinese_text_cleaning E text)"

definition language_specific_cleaning :: "runtime \<Rightarrow> ustring \<Rightarrow> Language \<Rightarrow> ustring" where
  "language_specific_cleaning E text lang =
     (if lang = CHINESE \<or> (lang = AUTO \<and> contains_chinese text) then chinese_text_cleaning E text
      else if lang = ENGLISH \<or> (lang = AUTO \<and> \<not> contains_chinese text)
      then english_text_cleaning E text
      else mixed_language_cleaning E text)"

subsection \<open>\<open>_advanced_text_cleaning\<close>\<close>

definition rx_special_char :: "runtime \<Rightarrow> rx" where
  \<comment> \<open>a character outside the class of the ideographs, \<open>\w\<close>, \<open>\s\<close> and
      \<open>.,;:!?()[]{}"'-\<close>\<close>
  "rx_special_char E =
     Chr (\<lambda>c. \<not> (is_cjk c \<or> is_cjk_ext_a c \<or> is_word E c \<or> is_space c
                \<or> c \<in> set (ascii ''.,;:!?()[]{}'') \<or> c = 34 \<or> c = 39 \<or> c = 45))"

definition punct6 :: rx where
  \<comment> \<open>\<open>[.,;:!?]\<close>\<close>
  "punct6 = one_of (ascii ''.,;:!?'')"

definition error_fixes :: "runtime \<Rightarrow> (rx \<times> (ustring \<Rightarrow> ustring)) list" where
  \<comment> \<open>\<open> +([.,;:!?])\<close> to \<open>\1\<close>; \<open>([.,;:!?]) +\<close> to \<open>\1\<close> and a space;
      \<open>(\d),(\d{3})\<close> to \<open>\1\2\<close>; \<open>\(\s*\<close> to \<open>(\<close>; \<open>\s*\)\<close> to \<open>)\<close>\<close>
  "error_fixes E =
     [(Seq (rx_plus (lit 32)) punct6, \<lambda>m. [last m]),
      (Seq punct6 (rx_plus (lit 32)), \<lambda>m. [hd m, 32]),
      (seqs [Chr (is_digit E), lit 44, Rep 3 (Some 3) (Chr (is_digit E))], \<lambda>m. hd m # drop 2 m),
      (Seq (lit 40) (rx_star (Chr is_space)), \<lambda>m. [40]),
      (Seq (rx_star (Chr is_space)) (lit 41), \<lambda>m. [41])]"

definition fix_common_errors :: "runtime \<Rightarrow> ustring \<Rightarrow> ustring" where
  "fix_common_errors E text =
     fold (\<lambda>(pattern, replacement) t. re_sub pattern replacement t) (error_fixes E) text"

definition advanced_text_cleaning :: "runtime \<Rightarrow> CleanerConfig \<Rightarrow> ustring \<Rightarrow> Language \<Rightarrow> ustring" where
  "advanced_text_cleaning E cfg text lang =
     fix_common_errors E
       (if remove_special_chars cfg then re_sub (rx_special_char E) (\<lambda>m. []) text else text)"

subsection \<open>\<open>_quality_check\<close>, \<open>_calculate_similarity\<close>, \<open>_is_duplicate\<close>\<close>

definition quality_hydro_keywords :: "ustring list" where
  \<comment> \<open>ten single ideographs: U+6C34, U+6587, U+96E8, U+6CB3, U+6E56, U+5E93, U+575D,
      U+9632, U+6D2A, U+6D9D\<close>
  "quality_hydro_keywords =
     [[27700], [25991], [38632], [27827], [28246], [24211], [22365], [38450], [27946], [28061]]"

definition quality_check :: "CleanerConfig \<Rightarrow> ustring \<Rightarrow> bool" where
  "quality_check cfg text =
     (if int (length (py_strip text)) < min_text_length cfg then False
      else if py_strip text = [] then False
      else
        let unique_chars = card (set text) in
        if unique_chars < 5 \<and> length text > 20 then False
        else if \<not> (\<exists>keyword \<in> set quality_hydro_keywords. sublist keyword text)
        then (if length text > 100 \<and> unique_chars > 30 then True else False)
        else True)"

definition calculate_similarity :: "runtime \<Rightarrow> ustring \<Rightarrow> ustring \<Rightarrow> real" where
  "calculate_similarity E text1 text2 =
     (if text1 = [] \<or> text2 = [] then 0
      else
        let set1 = set (str_lower E text1);
            set2 = set (str_lower E text2);
            intersection = card (set1 \<inter> set2);
            union = card (set1 \<union> set2)
        in if union = 0 then 0 else real intersection / real union)"

record CleanerState =
  seen_hashes :: "string set"
  seen_contents :: "(ustring \<times> ustring) list"

definition is_duplicate ::
  "runtime \<Rightarrow> CleanerConfig \<Rightarrow> CleanerState \<Rightarrow> ustring \<Rightarrow> ustring \<Rightarrow> pyexn + (bool \<times> CleanerState)" where
  "is_duplicate E cfg st text cid =
     (case md5_of_text E text of
        Inl e \<Rightarrow> Inl e
      | Inr text_hash \<Rightarrow>
          if text_hash \<in> seen_hashes st then Inr (True, st)
          else if \<exists>existing_content \<in> set (map snd (seen_contents st)).
                    calculate_similarity E text existing_content > similarity_threshold cfg
          then Inr (True, st)
          else Inr (False, st\<lparr>seen_hashes := insert text_hash (seen_hashes st),
                               seen_contents := AList.update cid text (seen_contents st)\<rparr>))"

subsection \<open>\<open>HydroDataCleaner.process_single\<close>\<close>

definition cleaner_name :: string where
  "cleaner_name = ''HydroDataCleaner''"

definition duplicate_message :: ustring where
  \<comment> \<open>the message of the SKIPPED record: U+91CD, U+590D, U+6570, U+636E\<close>
  "duplicate_message = [37325, 22797, 25968, 25454]"

definition dict_update :: "(string \<times> pyval) list \<Rightarrow> (string \<times> pyval) list \<Rightarrow> (string \<times> pyval) list" where
  \<comment> \<open>\<open>d.update(other)\<close>\<close>
  "dict_update other d = fold (\<lambda>(k, v). AList.update k v) other d"

definition cleaning_steps :: "runtime \<Rightarrow> CleanerConfig \<Rightarrow> DataChunk \<Rightarrow> ustring" where
  \<comment> \<open>the steps 1 to 3 of \<open>process_single\<close>\<close>
  "cleaning_steps E cfg data_chunk =
     (let cleaned_content = basic_text_cleaning E cfg (content data_chunk);
          cleaned_content = language_specific_cleaning E cleaned_content (language data_chunk);
          cleaned_content = advanced_text_cleaning E cfg cleaned_content (language data_chunk)
      in cleaned_content)"

definition cleaner_process_single :: "runtime \<Rightarrow> CleanerConfig \<Rightarrow> CleanerState transform" where
  "cleaner_process_single E cfg st data_chunk =
     (if \<not> validate_input data_chunk then (Inr data_chunk, st)
      else
        let original_content = content data_chunk;
            cleaned_content = cleaning_steps E cfg data_chunk
        in
        if \<not> quality_check cfg cleaned_content then (Inr data_chunk, st)
        else
          (case (if remove_duplicates cfg
                 then is_duplicate E cfg st cleaned_content (chunk_id data_chunk)
                 else Inr (False, st)) of
             Inl e \<Rightarrow>
               (Inr (add_process_metadata data_chunk
                       (skill_process_metadata cleaner_name FAILED (Some (exn_msg e)))), st)
           | Inr (True, st') \<Rightarrow>
               (Inr (add_process_metadata data_chunk
                       (skill_process_metadata cleaner_name SKIPPED (Some duplicate_message))), st')
           | Inr (False, st') \<Rightarrow>
               (Inr (data_chunk
                      \<lparr>content := cleaned_content,
                       extra_data :=
                         dict_update
                           [(''cleaned'', PBool True),
                            (''original_length'', PInt (int (length original_content))),
                            (''cleaned_length'', PInt (int (length cleaned_content))),
                            (''cleaning_ratio'',
                               if original_content \<noteq> []
                               then PFloat (real (length cleaned_content)
                                            / real (length original_content))
                               else PInt 0)]
                           (extra_data data_chunk)\<rparr>), st')))"

section \<open>The Enhancer (\<open>skills/enhancer.py\<close>)\<close>

subsection \<open>Configuration, knowledge base and templates\<close>

record EnhancerConfig =
  enable_qa_generation :: bool
  enable_term_extraction :: bool
  enable_knowledge_enrichment :: bool
  qa_model_loaded :: bool

record KnowledgeBase =
  kb_terms :: "(ustring \<times> ustring list) list"
  kb_entities :: "(ustring \<times> (string \<times> pyval) list) list"
  kb_relationships :: "(ustring \<times> ustring \<times> ustring) list"

definition init_hydro_knowledge_base :: KnowledgeBase where
  \<comment> \<open>the twenty terms with their aliases, the four entities and the four relations of
      \<open>_init_hydro_knowledge_base\<close>\<close>
  "init_hydro_knowledge_base =
     \<lparr>kb_terms =
        [([27700, 25991], [[27700, 25991, 23398], [27700, 25991, 20998, 26512],
            [27700, 25991, 36164, 26009]]),
         ([38477, 38632], [[38477, 27700], [38477, 38632, 37327], [38477, 27700, 37327],
            [38477, 38632, 24378, 24230]]),
         ([24452, 27969], [[22320, 34920, 24452, 27969], [22320, 19979, 24452, 27969],
            [24452, 27969, 37327], [24452, 27969, 31995, 25968]]),
         ([33976, 21457], [[33976, 21457, 37327], [33976, 21457, 33021, 21147],
            [33976, 25955, 21457]]),
         ([28183, 36879], [[20837, 28183], [19979, 28183], [28183, 36879, 29575],
            [28183, 36879, 31995, 25968]]),
         ([27969, 22495], [[38598, 27700, 21306], [27719, 27700, 21306],
            [27969, 22495, 38754, 31215], [20998, 27700, 23725]]),
         ([27827, 27969], [[27827, 36947], [27827, 24202], [27827, 23736], [27827, 21475]]),
         ([28246, 27850], [[27700, 24211], [20154, 24037, 28246], [22825, 28982, 28246],
            [28246, 27850, 27700, 20301]]),
         ([22320, 19979, 27700], [[21547, 27700, 23618], [22320, 19979, 27700, 20301],
            [22320, 19979, 27700, 34917, 32473]]),
         ([22823, 22365], [[27700, 22365], [22564, 22365], [37325, 21147, 22365],
            [25329, 22365]]),
         ([27700, 38392], [[33410, 21046, 38392], [27844, 27946, 38392], [20914, 27801, 38392]]),
         ([22564, 38450], [[38450, 27946, 22564], [28023, 22564], [27827, 22564]]),
         ([27893, 31449], [[25277, 27700, 31449], [25490, 27700, 27893, 31449],
            [28748, 28297, 27893, 31449]]),
         ([38450, 27946], [[38450, 27946, 24037, 31243], [38450, 27946, 26631, 20934],
            [27946, 27700, 39044, 35686]]),
         ([28748, 28297], [[20892, 30000, 28748, 28297], [33410, 27700, 28748, 28297],
            [28748, 28297, 21046, 24230]]),
         ([25490, 28061], [[25490, 27700], [38500, 28061], [25490, 27700, 31995, 32479]]),
         ([20379, 27700], [[27700, 28304, 22320], [20379, 27700, 24037, 31243],
            [27700, 36136, 20445, 38556]]),
         ([27700, 36136], [[27700, 29615, 22659], [27700, 27745, 26579],
            [27700, 36136, 30417, 27979]]),
         ([27700, 29983, 24577], [[29983, 24577, 31995, 32479],
            [29983, 29289, 22810, 26679, 24615], [29983, 24577, 20445, 25252]]),
         ([27700, 22303, 20445, 25345], [[22303, 22756, 20405, 34432],
            [26893, 34987, 24674, 22797], [32508, 21512, 27835, 29702]])],
      kb_entities =
        [([38271, 27743],
            [(''type'', PStr [27827, 27969]), (''length'', PStr (ascii ''6300km'')),
             (''basin_area'', PStr [49, 56, 48, 19975, 107, 109, 178])]),
         ([40644, 27827],
            [(''type'', PStr [27827, 27969]), (''length'', PStr (ascii ''5464km'')),
             (''basin_area'', PStr [55, 57, 46, 53, 19975, 107, 109, 178])]),
         ([19977, 23777],
            [(''type'', PStr [27700, 21033, 24037, 31243]),
             (''purpose'', PStr [38450, 27946, 12289, 21457, 30005, 12289, 33322, 36816])]),
         ([21335, 27700, 21271, 35843],
            [(''type'', PStr [35843, 27700, 24037, 31243]),
             (''routes'', PList [PStr [19996, 32447], PStr [20013, 32447],
                                 PStr [35199, 32447]])])],
      kb_relationships =
        [([38271, 27743], [27969, 32463], [19977, 23777]),
         ([19977, 23777], [26159], [27700, 21033, 24037, 31243]),
         ([21335, 27700, 21271, 35843], [36830, 25509], [38271, 27743]),
         ([21335, 27700, 21271, 35843], [36830, 25509], [40644, 27827])]\<rparr>"

datatype slot = Lit ustring | TermSlot | OtherSlot

definition qa_type_definition :: ustring where "qa_type_definition = [23450, 20041, 22411]"
definition qa_type_principle :: ustring where "qa_type_principle = [21407, 29702, 22411]"
definition qa_type_application :: ustring where "qa_type_application = [24212, 29992, 22411]"
definition qa_type_calculation :: ustring where "qa_type_calculation = [35745, 31639, 22411]"
definition qa_type_comparison :: ustring where "qa_type_comparison = [27604, 36739, 22411]"

definition qa_templates :: "(ustring \<times> slot list list) list" where
  \<comment> \<open>\<open>_init_qa_templates\<close>: five question types with three templates each; \<open>TermSlot\<close>
      and \<open>OtherSlot\<close> are the fields \<open>{term}\<close> and \<open>{other}\<close>\<close>
  "qa_templates =
     [(qa_type_definition,
        [[Lit [20160, 20040, 26159], TermSlot, Lit [65311]],
         [TermSlot, Lit [30340, 23450, 20041, 26159, 20160, 20040, 65311]],
         [Lit [35831, 35299, 37322, 19968, 19979], TermSlot, Lit [30340, 21547, 20041, 12290]]]),
      (qa_type_principle,
        [[TermSlot, Lit [30340, 21407, 29702, 26159, 20160, 20040, 65311]],
         [TermSlot, Lit [26159, 22914, 20309, 24037, 20316, 30340, 65311]],
         [Lit [35831, 35828, 26126], TermSlot, Lit [30340, 24037, 20316, 26426, 21046, 12290]]]),
      (qa_type_application,
        [[TermSlot, Lit [22312, 23454, 38469, 20013, 26377, 20160, 20040, 24212, 29992, 65311]],
         [TermSlot, Lit [30340, 20027, 35201, 29992, 36884, 26159, 20160, 20040, 65311]],
         [Lit [22914, 20309, 24212, 29992], TermSlot,
          Lit [35299, 20915, 23454, 38469, 38382, 39064, 65311]]]),
      (qa_type_calculation,
        [[Lit [22914, 20309, 35745, 31639], TermSlot, Lit [65311]],
         [TermSlot, Lit [30340, 35745, 31639, 20844, 24335, 26159, 20160, 20040, 65311]],
         [Lit [35831, 35828, 26126], TermSlot, Lit [30340, 35745, 31639, 26041, 27861, 12290]]]),
      (qa_type_comparison,
        [[TermSlot, Lit [21644], OtherSlot, Lit [26377, 20160, 20040, 21306, 21035, 65311]],
         [TermSlot, Lit [19982], OtherSlot,
          Lit [30456, 27604, 26377, 20160, 20040, 20248, 21183, 65311]],
         [Lit [35831, 27604, 36739], TermSlot, Lit [21644], OtherSlot,
          Lit [30340, 29305, 28857, 12290]]])]"

record EnhancerState =
  knowledge_base :: KnowledgeBase
  generated_qa_count :: nat
  extracted_terms_count :: nat
  draws :: nat

subsection \<open>Term extraction\<close>

definition is_hydro_term :: "ustring \<Rightarrow> bool" where
  "is_hydro_term word =
     contains_any [[27700], [25991], [38632], [27946], [28061], [26097], [27827], [28246],
                   [24211], [22365], [38392], [27893], [28748], [25490]] word"

definition extract_chinese_terms :: "runtime \<Rightarrow> KnowledgeBase \<Rightarrow> ustring \<Rightarrow> pyval list" where
  \<comment> \<open>the types are the texts U+4E13 U+4E1A U+672F U+8BED, U+5B9E U+4F53 and
      U+7591 U+4F3C U+4E13 U+4E1A U+672F U+8BED\<close>
  "extract_chinese_terms E kb text =
     (case pseg_cut E of
        None \<Rightarrow> []
      | Some posseg_cut \<Rightarrow>
          (case posseg_cut text of
             None \<Rightarrow> []
           | Some words \<Rightarrow>
               concat (map (\<lambda>(word, flag).
                  case map_of (kb_terms kb) word of
                    Some aliases \<Rightarrow>
                      [PDict [(''term'', PStr word), (''type'', PStr [19987, 19994, 26415, 35821]),
                              (''confidence'', PFloat 0.9), (''pos'', PStr flag),
                              (''aliases'', PList (map PStr aliases))]]
                  | None \<Rightarrow>
                      (case map_of (kb_entities kb) word of
                         Some entity_info \<Rightarrow>
                           [PDict [(''term'', PStr word), (''type'', PStr [23454, 20307]),
                                   (''confidence'', PFloat 0.95),
                                   (''entity_info'', PDict entity_info)]]
                       | None \<Rightarrow>
                           if 2 \<le> length word \<and> length word \<le> 4 \<and> is_hydro_term word
                           then [PDict [(''term'', PStr word),
                                        (''type'', PStr [30097, 20284, 19987, 19994, 26415, 35821]),
                                        (''confidence'', PFloat 0.7), (''pos'', PStr flag)]]
                           else [])) words)))"

definition english_hydro_terms :: "ustring list" where
  "english_hydro_terms =
     map ascii [''hydrology'', ''water'', ''river'', ''dam'', ''reservoir'', ''flood'',
                ''drought'', ''precipitation'', ''evaporation'', ''runoff'', ''watershed'',
                ''groundwater'', ''irrigation'', ''drainage'', ''water quality'', ''ecosystem'']"

definition rx_english_word :: "runtime \<Rightarrow> rx" where
  \<comment> \<open>\<open>\b[a-zA-Z]+\b\<close>\<close>
  "rx_english_word E = seqs [Bnd (is_word E), rx_plus (Chr is_alpha_ascii), Bnd (is_word E)]"

definition extract_english_terms :: "runtime \<Rightarrow> ustring \<Rightarrow> pyval list" where
  "extract_english_terms E text =
     map (\<lambda>word. PDict [(''term'', PStr word),
                         (''type'', PStr (ascii ''English'' @ [19987, 19994, 26415, 35821])),
                         (''confidence'', PFloat 0.8)])
         (filter (\<lambda>word. word \<in> set english_hydro_terms)
                 (re_findall (rx_english_word E) (str_lower E text)))"

fun unique_terms :: "ustring list \<Rightarrow> pyval list \<Rightarrow> pyval list" where
  \<comment> \<open>the loop that removes repeated and one-character terms; the first argument lists
      the term texts seen so far\<close>
  "unique_terms seen_terms [] = []"
| "unique_terms seen_terms (term # rest) =
     (case term of
        PDict d \<Rightarrow>
          (case map_of d ''term'' of
             Some (PStr term_text) \<Rightarrow>
               if term_text \<notin> set seen_terms \<and> length term_text > 1
               then term # unique_terms (term_text # seen_terms) rest
               else unique_terms seen_terms rest
           | _ \<Rightarrow> unique_terms seen_terms rest)
      | _ \<Rightarrow> unique_terms seen_terms rest)"

definition extract_terms :: "runtime \<Rightarrow> KnowledgeBase \<Rightarrow> ustring \<Rightarrow> Language \<Rightarrow> pyval list" where
  "extract_terms E kb text lang =
     unique_terms []
       (if lang = CHINESE \<or> (lang = AUTO \<and> contains_chinese text)
        then extract_chinese_terms E kb text
        else if lang = ENGLISH then extract_english_terms E text
        else extract_chinese_terms E kb text @ extract_english_terms E text)"

subsection \<open>Question and answer generation\<close>

definition random_choice :: "runtime \<Rightarrow> nat \<Rightarrow> 'a list \<Rightarrow> pyexn + 'a" where
  \<comment> \<open>\<open>random.choice(seq)\<close> as the draw number \<open>k\<close>\<close>
  "random_choice E k seq =
     (if seq = [] then Inl (PyExn ''IndexError'' (ascii ''Cannot choose from an empty sequence''))
      else Inr (seq ! (random_draw E k mod length seq)))"

fun format_template :: "runtime \<Rightarrow> slot list \<Rightarrow> pyval \<Rightarrow> pyval option \<Rightarrow> pyexn + ustring" where
  \<comment> \<open>\<open>template.format(term=..., other=...)\<close>, \<open>other\<close> given or not\<close>
  "format_template E [] term other = Inr []"
| "format_template E (Lit s # rest) term other =
     map_sum id (\<lambda>r. s @ r) (format_template E rest term other)"
| "format_template E (TermSlot # rest) term other =
     map_sum id (\<lambda>r. to_str E term @ r) (format_template E rest term other)"
| "format_template E (OtherSlot # rest) term other =
     (case other of
        None \<Rightarrow> Inl (key_error ''other'')
      | Some v \<Rightarrow> map_sum id (\<lambda>r. to_str E v @ r) (format_template E rest term other))"

definition find_all :: "ustring \<Rightarrow> ustring \<Rightarrow> nat list" where
  \<comment> \<open>the positions the loop over \<open>content.find(term, start)\<close> collects\<close>
  "find_all term text = filter (\<lambda>i. prefix term (drop i text)) [0 ..< Suc (length text)]"

definition py_slice :: "ustring \<Rightarrow> nat \<Rightarrow> nat \<Rightarrow> ustring" where
  \<comment> \<open>\<open>s[i:j]\<close> for indices that are not negative\<close>
  "py_slice s i j = drop i (take j s)"

definition generate_default_answer :: "ustring \<Rightarrow> ustring \<Rightarrow> ustring" where
  "generate_default_answer term qa_type =
     (case map_of
        [(qa_type_definition,
            term @ [26159, 27700, 21033, 39046, 22495, 30340, 37325, 35201, 27010, 24565, 65292,
                    20855, 20307, 23450, 20041, 38656, 35201, 32467, 21512, 19987, 19994, 25991,
                    29486, 30830, 23450, 12290]),
         (qa_type_principle,
            term @ [30340, 24037, 20316, 21407, 29702, 28041, 21450, 22810, 20010, 27700, 21033,
                    19987, 19994, 30693, 35782, 28857, 65292, 38656, 35201, 35814, 32454, 20998,
                    26512, 12290]),
         (qa_type_application,
            term @ [22312, 27700, 21033, 24037, 31243, 20013, 26377, 37325, 35201, 24212, 29992,
                    65292, 20855, 20307, 24212, 29992, 22330, 26223, 38656, 35201, 26681, 25454,
                    23454, 38469, 24773, 20917, 30830, 23450, 12290]),
         (qa_type_calculation,
            term @ [30340, 35745, 31639, 26041, 27861, 38656, 35201, 21442, 32771, 30456, 20851,
                    30340, 27700, 21033, 35745, 31639, 35268, 33539, 21644, 25163, 20876, 12290]),
         (qa_type_comparison,
            term @ [19982, 20854, 20182, 27010, 24565, 30340, 27604, 36739, 38656, 35201, 20174,
                    22810, 20010, 32500, 24230, 36827, 34892, 20998, 26512, 12290])]
        qa_type of
        Some a \<Rightarrow> a
      | None \<Rightarrow> [20851, 20110] @ term @ [30340, 35814, 32454, 20449, 24687, 38656, 35201, 36827,
                                         19968, 27493, 20998, 26512, 12290])"

definition longest_first :: "ustring list \<Rightarrow> ustring" where
  \<comment> \<open>\<open>max(answers, key=len)\<close> for a list that is not empty: the first of the longest\<close>
  "longest_first answers =
     foldl (\<lambda>best a. if length a > length best then a else best) (hd answers) (tl answers)"

definition generate_answer_for_term :: "ustring \<Rightarrow> ustring \<Rightarrow> ustring \<Rightarrow> ustring" where
  "generate_answer_for_term term text qa_type =
     (let term_positions = find_all term text in
      if term_positions = [] then generate_default_answer term qa_type
      else
        let answers =
              filter (\<lambda>ctx. length ctx > 20)
                (map (\<lambda>pos. py_strip (py_slice text (pos - 100)
                                        (min (length text) (pos + length term + 100))))
                     term_positions)
        in if answers \<noteq> [] then longest_first answers
           else generate_default_answer term qa_type)"

definition determine_domain :: "ustring \<Rightarrow> ustring" where
  "determine_domain term =
     (case map_of
        [([27700, 25991], [27700, 25991, 23398]), ([38477, 38632], [27700, 25991, 23398]),
         ([24452, 27969], [27700, 25991, 23398]), ([22823, 22365], [27700, 24037, 31243]),
         ([38450, 27946], [38450, 27946]), ([28748, 28297], [28748, 28297]),
         ([27700, 36136], [27700, 29615, 22659])] term of
        Some d \<Rightarrow> d
      | None \<Rightarrow> [32508, 21512])"

definition make_qa :: "ustring \<Rightarrow> ustring \<Rightarrow> ustring \<Rightarrow> ustring \<Rightarrow> real \<Rightarrow> QAData" where
  \<comment> \<open>\<open>QAData(question=.., answer=.., context=.., domain=.., confidence=..)\<close>\<close>
  "make_qa q a ctx dm conf =
     \<lparr>question = PStr q, answer = PStr a, qa_context = PStr ctx, difficulty = PNone,
      domain = PStr dm, confidence = PFloat conf, qa_metadata = PDict []\<rparr>"

fun other_terms :: "pyval list \<Rightarrow> pyval \<Rightarrow> pyexn + pyval list" where
  \<comment> \<open>\<open>[t["term"] for t in terms if t["term"] != term]\<close>\<close>
  "other_terms [] term = Inr []"
| "other_terms (t # ts) term =
     (case py_getitem t ''term'' of
        Inl e \<Rightarrow> Inl e
      | Inr x \<Rightarrow>
          (case other_terms ts term of
             Inl e \<Rightarrow> Inl e
           | Inr xs \<Rightarrow> Inr (if \<not> py_eq x term then x # xs else xs)))"

definition template_qa_for ::
  "runtime \<Rightarrow> ustring \<Rightarrow> pyval list \<Rightarrow> nat \<Rightarrow> pyval \<Rightarrow> nat \<Rightarrow> (pyexn + QAData list) \<times> nat" where
  \<comment> \<open>one round of the loop of \<open>_generate_template_qa\<close>: the chunk's text, all the terms
      and their number, the term's entry and the number of draws made so far; the result
      holds the pair the round appends, if any, and the number of draws made\<close>
  "template_qa_for E text all_terms n_terms term_info k =
     (case py_getitem term_info ''term'' of
        Inl e \<Rightarrow> (Inl e, k)
      | Inr term \<Rightarrow>
          (case random_choice E k (map fst qa_templates) of
             Inl e \<Rightarrow> (Inl e, k)
           | Inr qa_type \<Rightarrow>
               (case random_choice E (k + 1)
                       (case map_of qa_templates qa_type of Some ts \<Rightarrow> ts | None \<Rightarrow> []) of
                  Inl e \<Rightarrow> (Inl e, k + 1)
                | Inr template \<Rightarrow>
                    let (question, k') =
                          (if qa_type = qa_type_comparison \<and> n_terms > 1
                           then (case other_terms all_terms term of
                                   Inl e \<Rightarrow> (Inl e, k + 2)
                                 | Inr others \<Rightarrow>
                                     (case random_choice E (k + 2) others of
                                        Inl e \<Rightarrow> (Inl e, k + 2)
                                      | Inr other_term \<Rightarrow>
                                          (format_template E template term (Some other_term),
                                           k + 3)))
                           else (format_template E template term None, k + 2))
                    in case question of
                         Inl e \<Rightarrow> (Inl e, k')
                       | Inr q \<Rightarrow>
                           (case as_text term of
                              Inl e \<Rightarrow> (Inl e, k')
                            | Inr term_text \<Rightarrow>
                                let a = generate_answer_for_term term_text text qa_type in
                                (Inr (if a \<noteq> []
                                      then [make_qa q a
                                              (if length text > 200
                                               then take 200 text @ ascii ''...'' else text)
                                              (determine_domain term_text) 0.8]
                                      else []), k')))))"

fun template_qa_loop ::
  "runtime \<Rightarrow> ustring \<Rightarrow> pyval list \<Rightarrow> nat \<Rightarrow> pyval list \<Rightarrow> nat \<Rightarrow> (pyexn + QAData list) \<times> nat" where
  "template_qa_loop E text all_terms n_terms [] k = (Inr [], k)"
| "template_qa_loop E text all_terms n_terms (term_info # rest) k =
     (case template_qa_for E text all_terms n_terms term_info k of
        (Inl e, k') \<Rightarrow> (Inl e, k')
      | (Inr qa, k') \<Rightarrow>
          (case template_qa_loop E text all_terms n_terms rest k' of
             (Inl e, k'') \<Rightarrow> (Inl e, k'')
           | (Inr qas, k'') \<Rightarrow> (Inr (qa @ qas), k'')))"

definition generate_template_qa :: "runtime \<Rightarrow> DataChunk \<Rightarrow> nat \<Rightarrow> (pyexn + QAData list) \<times> nat" where
  "generate_template_qa E data_chunk k =
     (let terms = dict_get (extra_data data_chunk) ''extracted_terms'' (PList []) in
      case py_slice_to terms 3 of
        Inl e \<Rightarrow> (Inl e, k)
      | Inr first3 \<Rightarrow>
          (case py_iter first3 of
             Inl e \<Rightarrow> (Inl e, k)
           | Inr round_terms \<Rightarrow>
               template_qa_loop E (content data_chunk)
                 (case py_iter terms of Inr ts \<Rightarrow> ts | Inl e \<Rightarrow> [])
                 (case py_len terms of Inr n \<Rightarrow> n | Inl e \<Rightarrow> 0)
                 round_terms k))"

definition generate_model_qa :: "DataChunk \<Rightarrow> QAData list" where
  "generate_model_qa data_chunk = []"

definition rx_number_unit :: "runtime \<Rightarrow> rx" where
  \<comment> \<open>\<open>\d+(?:\.\d+)?\s*(?:km|mm|m|C|%|W|Y|T|LFM)\<close> where C is U+2103, W is U+4E07, Y is
      U+4EBF, T is U+5428 and LFM is U+7ACB U+65B9 U+7C73\<close>
  "rx_number_unit E =
     seqs [rx_plus (Chr (is_digit E)),
           rx_opt (Seq (lit 46) (rx_plus (Chr (is_digit E)))),
           rx_star (Chr is_space),
           alts (map str_rx [ascii ''km'', ascii ''mm'', ascii ''m'', [8451], ascii ''%'',
                             [19975], [20159], [21544], [31435, 26041, 31859]])]"

definition find_first :: "ustring \<Rightarrow> ustring \<Rightarrow> nat" where
  \<comment> \<open>\<open>s.find(sub)\<close> for a text that occurs\<close>
  "find_first sub text = (case find_all sub text of [] \<Rightarrow> 0 | i # _ \<Rightarrow> i)"

definition generate_content_based_qa :: "runtime \<Rightarrow> DataChunk \<Rightarrow> QAData list" where
  \<comment> \<open>a number found in the text always occurs in it, so \<open>find\<close> never gives -1\<close>
  "generate_content_based_qa E data_chunk =
     (let text = content data_chunk;
          numbers = re_findall (rx_number_unit E) text
      in map (\<lambda>num.
                let num_pos = find_first num text;
                    sentence = py_strip (py_slice text (num_pos - 50)
                                           (min (length text) (num_pos + length num + 50)))
                in make_qa ([25991, 20013, 25552, 21040, 30340] @ num
                              @ [36825, 20010, 25968, 25454, 20195, 34920, 20160, 20040, 21547,
                                 20041, 65311])
                           ([26681, 25454, 21407, 25991, 20869, 23481, 65292] @ sentence)
                           sentence [25968, 25454] 0.7)
             (take 2 numbers))"

definition generate_qa_pairs ::
  "runtime \<Rightarrow> EnhancerConfig \<Rightarrow> DataChunk \<Rightarrow> nat \<Rightarrow> (pyexn + QAData list) \<times> nat" where
  "generate_qa_pairs E cfg data_chunk k =
     (case generate_template_qa E data_chunk k of
        (Inl e, k') \<Rightarrow> (Inl e, k')
      | (Inr template_qa, k') \<Rightarrow>
          (Inr (take 5 (template_qa
                        @ (if qa_model_loaded cfg then generate_model_qa data_chunk else [])
                        @ generate_content_based_qa E data_chunk)), k'))"

subsection \<open>Enrichment and domain tags\<close>

definition get_term_explanation :: "ustring \<Rightarrow> ustring" where
  "get_term_explanation term =
     (case map_of
        [([27700, 25991], [30740, 31350, 27700, 30340, 21508, 31181, 29616, 35937, 21644, 35268,
                           24459]),
         ([38477, 38632], [22823, 27668, 20013, 30340, 27700, 27773, 20957, 32467, 21518, 38477,
                           33853, 21040, 22320, 38754, 30340, 29616, 35937]),
         ([24452, 27969], [38477, 27700, 25110, 34701, 38634, 24418, 25104, 30340, 22320, 34920,
                           27700, 27969]),
         ([33976, 21457], [27700, 20174, 28082, 24577, 36716, 21464, 20026, 27668, 24577, 30340,
                           36807, 31243]),
         ([27969, 22495], [20998, 27700, 32447, 25152, 21253, 22260, 30340, 38598, 27700, 21306,
                           22495]),
         ([38450, 27946], [38450, 27490, 27946, 27700, 28798, 23475, 30340, 21508, 31181, 25514,
                           26045]),
         ([28748, 28297], [20154, 20026, 34917, 32473, 20892, 30000, 27700, 20998, 30340, 25514,
                           26045])] term of
        Some e \<Rightarrow> e
      | None \<Rightarrow> [])"

fun enrich_loop :: "pyval list \<Rightarrow> ustring \<Rightarrow> pyexn + ustring" where
  \<comment> \<open>the loop of \<open>_enrich_content\<close> over the terms; the explanation goes between
      U+FF08 and U+FF09\<close>
  "enrich_loop [] text = Inr text"
| "enrich_loop (term_info # rest) text =
     (case py_getitem term_info ''term'' of
        Inl e \<Rightarrow> Inl e
      | Inr term \<Rightarrow>
          if py_eq (case term_info of PDict d \<Rightarrow> dict_get d ''type'' PNone | _ \<Rightarrow> PNone)
                   (PStr [19987, 19994, 26415, 35821])
          then (case as_text term of
                  Inl e \<Rightarrow> Inl e
                | Inr t \<Rightarrow>
                    if sublist t text
                    then let explanation = get_term_explanation t in
                         if explanation \<noteq> [] \<and> \<not> sublist (t @ explanation) text
                         then enrich_loop rest
                                (py_replace t (t @ [65288] @ explanation @ [65289]) text)
                         else enrich_loop rest text
                    else enrich_loop rest text)
          else enrich_loop rest text)"

definition enrich_content :: "DataChunk \<Rightarrow> pyexn + ustring" where
  "enrich_content data_chunk =
     (case py_iter (dict_get (extra_data data_chunk) ''extracted_terms'' (PList [])) of
        Inl e \<Rightarrow> Inl e
      | Inr terms \<Rightarrow> enrich_loop terms (content data_chunk))"

definition assign_domain_tags :: "ustring \<Rightarrow> ustring list" where
  "assign_domain_tags text =
     map fst
       (filter (\<lambda>(domain_name, keywords). contains_any keywords text)
          [([27700, 36164, 28304],
              [[27700, 36164, 28304], [27700, 37327], [29992, 27700], [20379, 27700],
               [33410, 27700]]),
           ([27700, 25991, 23398],
              [[27700, 25991], [38477, 38632], [24452, 27969], [33976, 21457], [28183, 36879]]),
           ([27700, 24037, 31243],
              [[22823, 22365], [27700, 38392], [22564, 38450], [27893, 31449], [27700, 24211]]),
           ([27700, 29615, 22659],
              [[27700, 36136], [27700, 29615, 22659], [27745, 26579], [29983, 24577],
               [20445, 25252]]),
           ([38450, 27946],
              [[27946, 27700], [38450, 27946], [38450, 27739], [39044, 35686], [35843, 24230]]),
           ([28748, 28297],
              [[28748, 28297], [20892, 30000], [25490, 27700], [26097, 24773],
               [25239, 26097]])])"

subsection \<open>\<open>HydroDataEnhancer.process_single\<close>\<close>

definition enhancer_name :: string where
  "enhancer_name = ''HydroDataEnhancer''"

definition set_extra :: "string \<Rightarrow> pyval \<Rightarrow> DataChunk \<Rightarrow> DataChunk" where
  \<comment> \<open>\<open>chunk.extra_data[key] = v\<close>\<close>
  "set_extra k v chunk = chunk\<lparr>extra_data := AList.update k v (extra_data chunk)\<rparr>"

definition qa_entry :: "QAData \<Rightarrow> pyval" where
  \<comment> \<open>\<open>{"question": qa.question, "answer": qa.answer}\<close>\<close>
  "qa_entry qa = PDict [(''question'', question qa), (''answer'', answer qa)]"

definition enhancer_failed :: "pyexn \<Rightarrow> DataChunk \<Rightarrow> DataChunk" where
  \<comment> \<open>the exception handler of \<open>process_single\<close>\<close>
  "enhancer_failed e chunk =
     add_process_metadata chunk (skill_process_metadata enhancer_name FAILED (Some (exn_msg e)))"

text \<open>
  The body of \<open>process_single\<close> runs four numbered steps inside one \<open>try\<close> block. Each
  step is given here as a function of the chunk (and the state) as the step finds them;
  a step that raises hands the exception to the handler, which sees the chunk and the
  state as the earlier steps left them.
\<close>

definition term_extraction_step ::
  "runtime \<Rightarrow> EnhancerConfig \<Rightarrow> EnhancerState \<Rightarrow> DataChunk \<Rightarrow> DataChunk \<times> EnhancerState" where
  "term_extraction_step E cfg st data_chunk =
     (if enable_term_extraction cfg
      then let terms = extract_terms E (knowledge_base st) (content data_chunk)
                         (language data_chunk)
           in if terms \<noteq> []
              then (set_extra ''extracted_terms'' (PList terms) data_chunk,
                    st\<lparr>extracted_terms_count := extracted_terms_count st + length terms\<rparr>)
              else (data_chunk, st)
      else (data_chunk, st))"

definition qa_generation_step ::
  "runtime \<Rightarrow> EnhancerConfig \<Rightarrow> EnhancerState \<Rightarrow> DataChunk \<Rightarrow>
     (pyexn \<times> EnhancerState) + (DataChunk \<times> EnhancerState)" where
  "qa_generation_step E cfg st data_chunk =
     (if enable_qa_generation cfg
      then (case generate_qa_pairs E cfg data_chunk (draws st) of
              (Inl e, k) \<Rightarrow> Inl (e, st\<lparr>draws := k\<rparr>)
            | (Inr generated, k) \<Rightarrow>
                if generated \<noteq> []
                then Inr (set_extra ''generated_qa'' (PList (map qa_entry generated)) data_chunk,
                          st\<lparr>draws := k,
                             generated_qa_count := generated_qa_count st + length generated\<rparr>)
                else Inr (data_chunk, st\<lparr>draws := k\<rparr>))
      else Inr (data_chunk, st))"

definition enrichment_step :: "EnhancerConfig \<Rightarrow> DataChunk \<Rightarrow> pyexn + DataChunk" where
  "enrichment_step cfg data_chunk =
     (if enable_knowledge_enrichment cfg
      then (case enrich_content data_chunk of
              Inl e \<Rightarrow> Inl e
            | Inr enriched_content \<Rightarrow>
                if enriched_content \<noteq> content data_chunk
                then Inr (set_extra ''knowledge_enriched'' (PBool True)
                            ((set_extra ''original_content'' (PStr (content data_chunk))
                                data_chunk)\<lparr>content := enriched_content\<rparr>))
                else Inr data_chunk)
      else Inr data_chunk)"

definition tagging_step :: "runtime \<Rightarrow> DataChunk \<Rightarrow> (pyexn \<times> DataChunk) + DataChunk" where
  \<comment> \<open>the domain tags and the two marks that close the \<open>try\<close> block; when the read of
      the logger's start time raises, the chunk already carries the tags and the mark
      \<open>enhanced\<close>\<close>
  "tagging_step E data_chunk =
     (let domain_tags = assign_domain_tags (content data_chunk);
          tagged = (if domain_tags \<noteq> []
                    then set_extra ''domain_tags'' (PList (map PStr domain_tags)) data_chunk
                    else data_chunk);
          marked = set_extra ''enhanced'' (PBool True) tagged
      in case logger_start_time E of
           Inl e \<Rightarrow> Inl (e, marked)
         | Inr t \<Rightarrow> Inr (set_extra ''enhancement_time'' t marked))"

definition enhancer_process_single :: "runtime \<Rightarrow> EnhancerConfig \<Rightarrow> EnhancerState transform" where
  "enhancer_process_single E cfg st data_chunk =
     (if \<not> validate_input data_chunk then (Inr data_chunk, st)
      else
        (case term_extraction_step E cfg st data_chunk of
           (chunk1, st1) \<Rightarrow>
             (case qa_generation_step E cfg st1 chunk1 of
                Inl (e, st2) \<Rightarrow> (Inr (enhancer_failed e chunk1), st2)
              | Inr (chunk2, st2) \<Rightarrow>
                  (case enrichment_step cfg chunk2 of
                     Inl e \<Rightarrow> (Inr (enhancer_failed e chunk2), st2)
                   | Inr chunk3 \<Rightarrow>
                       (case tagging_step E chunk3 of
                          Inl (e, chunk4) \<Rightarrow> (Inr (enhancer_failed e chunk4), st2)
                        | Inr chunk4 \<Rightarrow> (Inr chunk4, st2))))))"

section \<open>The Evaluator (\<open>skills/evaluator.py\<close>)\<close>

subsection \<open>\<open>_init_evaluators\<close>\<close>

definition hydro_keywords :: "ustring list" where
  \<comment> \<open>the 81 distinct elements of the set literal, in the order written (the literal
      names U+6C34 U+5E93 twice)\<close>
  "hydro_keywords =
     [[27700, 25991], [27668, 35937], [38477, 38632], [38477, 27700], [24452, 27969],
      [33976, 21457], [28183, 36879], [22320, 19979, 27700], [22320, 34920, 27700],
      [27700, 20301], [27969, 37327], [27969, 36895], [21547, 27801, 37327],
      [28342, 35299, 27687], [27700, 36136], [27700, 37327], [27700, 29615, 22659],
      [27700, 29983, 24577], [27969, 22495], [27700, 31995], [27827, 27969], [27827, 36947],
      [27827, 24202], [27827, 23736], [27827, 21475], [19977, 35282, 27954],
      [28246, 27850], [27700, 24211], [38271, 27743], [40644, 27827], [29664, 27743],
      [28142, 27827], [28023, 27827], [26494, 33457, 27743], [36797, 27827], [22823, 22365],
      [27700, 22365], [22564, 22365], [27700, 38392], [22564, 38450], [27893, 31449],
      [27700, 30005, 31449], [25318, 27827, 22365], [38450, 27946], [25490, 28061],
      [28748, 28297], [20379, 27700], [25490, 27700], [35843, 27700], [24341, 27700],
      [27946, 27700], [26543, 27700], [20016, 27700], [24179, 27700], [27739, 26399],
      [26543, 27700, 26399], [20016, 27700, 26399], [24178, 26097], [27946, 28061],
      [26292, 38632], [29305, 22823, 26292, 38632], [36830, 32493, 38477, 38632],
      [26757, 38632], [21488, 39118], [27700, 25991, 31449], [38632, 37327, 31449],
      [27700, 20301, 31449], [30417, 27979], [39044, 25253], [39044, 35686],
      [35843, 24230], [31649, 29702], [35268, 21010], [35774, 35745], [26045, 24037],
      [36816, 34892], [32500, 25252], [27835, 29702], [20445, 25252], [20462, 22797],
      [29983, 24577]]"

definition metric_weights :: "(string \<times> real) list" where
  "metric_weights =
     [(''completeness'', 0.25), (''relevance'', 0.30), (''consistency'', 0.20),
      (''diversity'', 0.25)]"

record EvaluatorConfig =
  quality_metrics :: "string list"
  thresholds :: "(string \<times> real) list"

subsection \<open>The patterns\<close>

definition rx_digits :: "runtime \<Rightarrow> rx" where
  \<comment> \<open>\<open>\d+\<close>\<close>
  "rx_digits E = rx_plus (Chr (is_digit E))"

definition rx_word_token :: "runtime \<Rightarrow> rx" where
  \<comment> \<open>\<open>\b\w+\b\<close>\<close>
  "rx_word_token E = seqs [Bnd (is_word E), rx_plus (Chr (is_word E)), Bnd (is_word E)]"

definition rx_words :: rx where
  \<comment> \<open>a run of ideographs of U+4E00 to U+9FFF, or else \<open>[a-zA-Z]+\<close>\<close>
  "rx_words = Alt (rx_plus (Chr is_cjk)) (rx_plus (Chr is_alpha_ascii))"

definition rx_terms :: rx where
  \<comment> \<open>the same two classes, each \<open>{2,}\<close>\<close>
  "rx_terms = Alt (Rep 2 None (Chr is_cjk)) (Rep 2 None (Chr is_alpha_ascii))"

definition rx_number :: "runtime \<Rightarrow> rx" where
  \<comment> \<open>\<open>\d+(?:\.\d+)?\<close>\<close>
  "rx_number E =
     Seq (rx_plus (Chr (is_digit E))) (rx_opt (Seq (lit 46) (rx_plus (Chr (is_digit E)))))"

definition rx_sentence_end :: rx where
  \<comment> \<open>one or more of U+3002, U+FF01, U+FF1F and \<open>.!?\<close>\<close>
  "rx_sentence_end = rx_plus (one_of [12290, 65281, 65311, 46, 33, 63])"

definition rx_description_mark :: rx where
  \<comment> \<open>the class written at line 340: the two adjacent string literals join to the class of
      U+FF0C, U+3002, U+FF01, U+FF1F, U+FF1B, U+FF1A, the ASCII double quote, U+FF08, U+FF09,
      U+3010, U+3011\<close>
  "rx_description_mark =
     one_of [65292, 12290, 65281, 65311, 65307, 65306, 34, 34, 65288, 65289, 12304, 12305]"

definition domain_patterns :: "rx list" where
  \<comment> \<open>four alternations of six words each, for the domains hydrology, engineering,
      management and environment\<close>
  "domain_patterns =
     [alts (map str_rx [[27700, 25991], [38477, 38632], [24452, 27969], [33976, 21457],
                        [27700, 20301], [27969, 37327]]),
      alts (map str_rx [[22823, 22365], [22564, 38450], [27700, 38392], [27893, 31449],
                        [27700, 24211], [24037, 31243]]),
      alts (map str_rx [[31649, 29702], [35843, 24230], [36816, 34892], [32500, 25252],
                        [30417, 27979], [39044, 25253]]),
      alts (map str_rx [[27700, 36136], [27700, 29615, 22659], [29983, 24577], [27745, 26579],
                        [20445, 25252], [27835, 29702]])]"

subsection \<open>The four sub-scores\<close>

definition evaluate_completeness :: "runtime \<Rightarrow> ustring \<Rightarrow> DataChunk \<Rightarrow> pyexn + real" where
  "evaluate_completeness E text data_chunk =
     (let score = 0;
          length_score = min 1 (real (length text) / 200);
          score = score + length_score * 0.3;
          structure_score = 0;
          structure_score = (if re_search (rx_digits E) text then structure_score + 0.2
                             else structure_score)
      in case py_len (dict_get (extra_data data_chunk) ''extracted_terms'' (PList [])) of
           Inl e \<Rightarrow> Inl e
         | Inr n_terms \<Rightarrow>
             let structure_score = (if n_terms \<ge> 2 then structure_score + 0.3
                                    else structure_score);
                 structure_score =
                   (if contains_any [[22240, 20026], [25152, 20197], [30001, 20110],
                                     [22240, 27492], [21407, 22240], [21407, 29702]] text
                    then structure_score + 0.2 else structure_score);
                 structure_score =
                   (if contains_any [[24212, 29992], [20351, 29992], [26041, 27861],
                                     [25514, 26045], [25216, 26415]] text
                    then structure_score + 0.3 else structure_score);
                 score = score + structure_score * 0.4;
                 words = length (re_findall (rx_word_token E) text);
                 density_score = min 1 (real words / 50);
                 score = score + density_score * 0.3
             in Inr (min 1 score))"

definition is_hydro_word :: "runtime \<Rightarrow> ustring \<Rightarrow> bool" where
  "is_hydro_word E word =
     (let word_lower = str_lower E word in
      \<exists>keyword \<in> set hydro_keywords.
         sublist (str_lower E keyword) word_lower \<or> sublist word_lower (str_lower E keyword))"

definition evaluate_relevance :: "runtime \<Rightarrow> ustring \<Rightarrow> Language \<Rightarrow> real" where
  "evaluate_relevance E text lang =
     (let score = 0;
          content_lower = str_lower E text;
          matched_keywords =
            length (filter (\<lambda>keyword. sublist (str_lower E keyword) content_lower)
                           hydro_keywords);
          keyword_score = real matched_keywords / real (length hydro_keywords);
          score = score + keyword_score * 0.4;
          words = re_findall rx_words text;
          score = (if words \<noteq> []
                   then let hydro_words = filter (is_hydro_word E) words;
                            term_ratio = real (length hydro_words) / real (length words)
                        in score + min 1 (term_ratio * 5) * 0.3
                   else score);
          domain_score = (\<Sum>pattern \<leftarrow> domain_patterns.
                             if re_search pattern text then 0.25 else 0);
          score = score + domain_score * 0.3
      in min 1 score)"

definition find_term_variations :: "ustring \<Rightarrow> ustring \<Rightarrow> ustring list" where
  \<comment> \<open>\<open>list(set(variations))\<close>: the distinct variations, of which the caller takes the
      number. The synonym table maps U+964D U+96E8, U+5F84 U+6D41 and U+5927 U+575D.\<close>
  "find_term_variations term text =
     (let variations = [term];
          variations =
            (if length term \<ge> 2
             then
               let variations =
                     (if length term > 2
                      then let abbreviation = [hd term, last term] in
                           if sublist abbreviation text \<and> abbreviation \<noteq> term
                           then variations @ [abbreviation] else variations
                      else variations)
               in fold (\<lambda>(main_term, synonyms) vs.
                          if term = main_term
                          then vs @ filter (\<lambda>synonym. sublist synonym text) synonyms
                          else if term \<in> set synonyms then vs @ [main_term]
                          else vs)
                       [([38477, 38632], [[38477, 27700]]),
                        ([24452, 27969], [[27700, 27969]]),
                        ([22823, 22365], [[27700, 22365], [22564, 22365]])]
                       variations
             else variations)
      in remdups variations)"

definition check_number_contradictions :: "ustring \<Rightarrow> ustring list \<Rightarrow> bool" where
  \<comment> \<open>both the body and its exception handler return False\<close>
  "check_number_contradictions text numbers = False"

definition evaluate_consistency :: "runtime \<Rightarrow> ustring \<Rightarrow> Language \<Rightarrow> real" where
  "evaluate_consistency E text lang =
     (let score = 0.8;
          chinese_chars = length (re_findall (Chr is_cjk) text);
          english_chars = length (re_findall (Chr is_alpha_ascii) text);
          total_chars = chinese_chars + english_chars;
          score =
            (if total_chars > 0
             then let chinese_ratio = real chinese_chars / real total_chars in
                  if 0.2 < chinese_ratio \<and> chinese_ratio < 0.8 then score + 0.1
                  else if chinese_ratio > 0.9 \<or> chinese_ratio < 0.1 then score + 0.05
                  else score
             else score);
          terms = re_findall rx_terms text;
          inconsistencies =
            length (filter (\<lambda>term. count_list terms term \<ge> 2
                                    \<and> length (find_term_variations term text) > 1)
                           (remdups terms));
          inconsistency_penalty = min 0.3 (real inconsistencies * 0.1);
          score = score - inconsistency_penalty;
          numbers = re_findall (rx_number E) text;
          score = (if length numbers > 1 \<and> check_number_contradictions text numbers
                   then score - 0.2 else score)
      in max 0 (min 1 score))"

definition np_var :: "real list \<Rightarrow> real" where
  \<comment> \<open>\<open>numpy.var\<close>: the population variance\<close>
  "np_var xs =
     (let mean = sum_list xs / real (length xs)
      in sum_list (map (\<lambda>x. (x - mean)\<^sup>2) xs) / real (length xs))"

definition topic_keywords :: "ustring list list" where
  \<comment> \<open>the keyword lists of the five topics data, technique, management, engineering and
      environment\<close>
  "topic_keywords =
     [[[25968, 25454], [25968, 20540], [32479, 35745], [27979, 37327], [30417, 27979]],
      [[25216, 26415], [26041, 27861], [24037, 33402], [26041, 26696], [25514, 26045]],
      [[31649, 29702], [21046, 24230], [25919, 31574], [35268, 21010], [35843, 24230]],
      [[24037, 31243], [24314, 35774], [26045, 24037], [35774, 35745], [32500, 25252]],
      [[29615, 22659], [29983, 24577], [20445, 25252], [27835, 29702], [20462, 22797]]]"

definition diversity_sentences :: "ustring \<Rightarrow> ustring list" where
  \<comment> \<open>the stripped, non-empty pieces between the sentence marks\<close>
  "diversity_sentences text =
     map py_strip (filter (\<lambda>s. py_strip s \<noteq> []) (re_split rx_sentence_end text))"

definition diversity_value :: "runtime \<Rightarrow> ustring \<Rightarrow> Language \<Rightarrow> real" where
  \<comment> \<open>the body of \<open>_evaluate_diversity\<close> when \<open>np.var\<close> can be called\<close>
  "diversity_value E text lang =
     (let score = 0;
          words = re_findall rx_words (str_lower E text);
          score = (if length words > 0
                   then score + (real (card (set words)) / real (length words)) * 0.3
                   else score);
          sentences = diversity_sentences text;
          score =
            (if length sentences > 1
             then
               let sentence_lengths = map (\<lambda>s. real (length s)) sentences;
                   length_variance = (if length sentence_lengths > 1
                                      then np_var sentence_lengths else 0);
                   max_length = (if sentence_lengths \<noteq> [] then Max (set sentence_lengths)
                                 else 1);
                   normalized_variance = (if max_length > 0
                                          then length_variance / max_length\<^sup>2 else 0)
               in score + min 1 (normalized_variance * 10) * 0.2
             else score);
          topics = filter (\<lambda>keywords. contains_any keywords text) topic_keywords;
          topic_diversity = real (length topics) / real (length topic_keywords);
          score = score + topic_diversity * 0.3;
          info_types =
            (if re_search (rx_number E) text then [''number''] else [])
            @ (if re_search rx_description_mark text then [''description''] else [])
            @ (if contains_any [[22240, 20026], [25152, 20197], [30001, 20110], [22240, 27492]]
                               text then [''cause''] else [])
            @ (if contains_any [[39318, 20808], [20854, 27425], [26368, 21518], [21478, 22806]]
                               text then [''logic''] else []);
          info_diversity = real (length info_types) / 4;
          score = score + info_diversity * 0.2
      in min 1 score)"

definition evaluate_diversity :: "runtime \<Rightarrow> ustring \<Rightarrow> Language \<Rightarrow> pyexn + real" where
  \<comment> \<open>\<open>_evaluate_diversity\<close>: the variance of the sentence lengths is its one call of
      \<open>numpy\<close>, made for a text of several sentences; without \<open>numpy\<close> the name \<open>np\<close> is
      undefined there and the call raises \<open>NameError\<close>\<close>
  "evaluate_diversity E text lang =
     (if length (diversity_sentences text) > 1 \<and> \<not> numpy_imported E
      then Inl (PyExn ''NameError''
                  (ascii (''name '' @ [CHR 0x27] @ ''np'' @ [CHR 0x27] @ '' is not defined'')))
      else Inr (diversity_value E text lang))"

subsection \<open>\<open>_calculate_overall_score\<close> and \<open>_evaluate_quality\<close>\<close>

definition calculate_overall_score :: "(string \<times> real) list \<Rightarrow> real" where
  "calculate_overall_score scores =
     (let (overall, total_weight) =
            fold (\<lambda>(metric, score) (overall, total_weight).
                    let weight = (case map_of metric_weights metric of
                                    None \<Rightarrow> 0.25 | Some w \<Rightarrow> w)
                    in (overall + score * weight, total_weight + weight))
                 scores (0, 0)
      in if total_weight > 0 then overall / total_weight else 0)"

definition score_get :: "(string \<times> real) list \<Rightarrow> string \<Rightarrow> real" where
  \<comment> \<open>\<open>scores.get(metric, 0.0)\<close>\<close>
  "score_get scores metric = (case map_of scores metric of None \<Rightarrow> 0 | Some v \<Rightarrow> v)"

definition evaluate_quality :: "runtime \<Rightarrow> EvaluatorConfig \<Rightarrow> DataChunk \<Rightarrow> pyexn + QualityScore" where
  "evaluate_quality E cfg data_chunk =
     (let text = content data_chunk;
          lang = language data_chunk
      in case (if ''completeness'' \<in> set (quality_metrics cfg)
               then map_sum id (\<lambda>v. [(''completeness'', v)])
                      (evaluate_completeness E text data_chunk)
               else Inr []) of
           Inl e \<Rightarrow> Inl e
         | Inr scores \<Rightarrow>
             let scores = (if ''relevance'' \<in> set (quality_metrics cfg)
                           then AList.update ''relevance'' (evaluate_relevance E text lang) scores
                           else scores);
                 scores = (if ''consistency'' \<in> set (quality_metrics cfg)
                           then AList.update ''consistency'' (evaluate_consistency E text lang)
                                  scores
                           else scores)
             in case (if ''diversity'' \<in> set (quality_metrics cfg)
                      then map_sum id (\<lambda>v. AList.update ''diversity'' v scores)
                             (evaluate_diversity E text lang)
                      else Inr scores) of
                  Inl e \<Rightarrow> Inl e
                | Inr scores \<Rightarrow>
                    let overall = calculate_overall_score scores
                    in Inr \<lparr>overall_score = overall,
                            completeness_score = score_get scores ''completeness'',
                            relevance_score = score_get scores ''relevance'',
                            consistency_score = score_get scores ''consistency'',
                            diversity_score = score_get scores ''diversity'',
                            details = scores\<rparr>)"

subsection \<open>\<open>HydroDataEvaluator.process_single\<close>\<close>

record EvaluatorState =
  evaluation_history :: "(ustring \<times> (string \<times> real) list) list"
  quality_distribution :: "(string \<times> real list) list"

definition record_evaluation ::
  "runtime \<Rightarrow> EvaluatorState \<Rightarrow> ustring \<Rightarrow> QualityScore \<Rightarrow> pyexn + EvaluatorState" where
  \<comment> \<open>building the record reads the logger's start time first; when the read raises,
      nothing is appended\<close>
  "record_evaluation E st cid q =
     (case logger_start_time E of
        Inl e \<Rightarrow> Inl e
      | Inr timestamp \<Rightarrow>
          let scores = [(''overall'', overall_score q), (''completeness'', completeness_score q),
                        (''relevance'', relevance_score q), (''consistency'', consistency_score q),
                        (''diversity'', diversity_score q)]
          in Inr (st\<lparr>evaluation_history := evaluation_history st @ [(cid, scores)],
                     quality_distribution :=
                       fold (\<lambda>(metric, score) dist.
                               AList.update metric
                                 ((case map_of dist metric of None \<Rightarrow> [] | Some l \<Rightarrow> l)
                                    @ [score]) dist)
                            scores (quality_distribution st)\<rparr>))"

definition generate_suggestions :: "runtime \<Rightarrow> DataChunk \<Rightarrow> QualityScore \<Rightarrow> ustring list" where
  \<comment> \<open>the eight canned suggestion texts, in the order of the source\<close>
  "generate_suggestions E data_chunk q =
     (let text = content data_chunk in
      (if completeness_score q < 0.7
       then (if length text < 100
             then [[20869, 23481, 36739, 30701, 65292, 24314, 35758, 22686, 21152, 26356, 22810,
                    35814, 32454, 20449, 24687]] else [])
            @ (if \<not> re_search (rx_digits E) text
               then [[32570, 23569, 20855, 20307, 25968, 25454, 65292, 24314, 35758, 28155, 21152,
                      30456, 20851, 25968, 20540, 20449, 24687]] else [])
            @ (if \<not> truthy (dict_get (extra_data data_chunk) ''extracted_terms'' PNone)
               then [[32570, 23569, 19987, 19994, 26415, 35821, 65292, 24314, 35758, 22686, 21152,
                      27700, 21033, 19987, 19994, 27010, 24565]] else [])
       else [])
      @ (if relevance_score q < 0.6
         then [[27700, 21033, 30456, 20851, 24615, 36739, 24369, 65292, 24314, 35758, 22686,
                21152, 19987, 19994, 39046, 22495, 20869, 23481]]
              @ (if relevance_score q < 0.4
                 then [[24314, 35758, 26126, 30830, 38416, 36848, 19982, 27700, 21033, 39046,
                        22495, 30340, 20851, 32852, 24615]] else [])
         else [])
      @ (if consistency_score q < 0.7
         then [[20869, 23481, 19968, 33268, 24615, 26377, 24453, 25913, 21892, 65292, 24314,
                35758, 26816, 26597, 26415, 35821, 20351, 29992, 21644, 36923, 36753, 32467,
                26500]]
         else [])
      @ (if diversity_score q < 0.6
         then [[34920, 36798, 36739, 20026, 21333, 19968, 65292, 24314, 35758, 20016, 23500,
                35789, 27719, 21644, 21477, 24335]]
              @ (if diversity_score q < 0.4
                 then [[24314, 35758, 20174, 22810, 20010, 35282, 24230, 23637, 24320, 25551,
                        36848, 65292, 22686, 21152, 20449, 24687, 23618, 27425]] else [])
         else []))"

definition evaluator_name :: string where
  "evaluator_name = ''HydroDataEvaluator''"

definition min_quality_score :: "EvaluatorConfig \<Rightarrow> real" where
  \<comment> \<open>\<open>self.thresholds.get("min_quality_score", 0.7)\<close>\<close>
  "min_quality_score cfg =
     (case map_of (thresholds cfg) ''min_quality_score'' of None \<Rightarrow> 0.7 | Some t \<Rightarrow> t)"

definition evaluator_process_single :: "runtime \<Rightarrow> EvaluatorConfig \<Rightarrow> EvaluatorState transform" where
  "evaluator_process_single E cfg st data_chunk =
     (if \<not> validate_input data_chunk then (Inr data_chunk, st)
      else
        (case evaluate_quality E cfg data_chunk of
           Inl e \<Rightarrow>
             (Inr (add_process_metadata data_chunk
                     (skill_process_metadata evaluator_name FAILED (Some (exn_msg e)))), st)
         | Inr q \<Rightarrow>
             let data_chunk = data_chunk\<lparr>extra_data :=
                                AList.update ''quality_score'' (PScore q) (extra_data data_chunk)\<rparr>
             in case record_evaluation E st (chunk_id data_chunk) q of
                  Inl e \<Rightarrow>
                    (Inr (add_process_metadata data_chunk
                            (skill_process_metadata evaluator_name FAILED (Some (exn_msg e)))),
                     st)
                | Inr st \<Rightarrow>
                    let suggestions = generate_suggestions E data_chunk q;
                        data_chunk =
                          (if suggestions \<noteq> []
                           then data_chunk\<lparr>extra_data :=
                                  AList.update ''improvement_suggestions''
                                    (PList (map PStr suggestions)) (extra_data data_chunk)\<rparr>
                           else data_chunk);
                        data_chunk =
                          (if overall_score q < min_quality_score cfg
                           then data_chunk\<lparr>extra_data :=
                                  AList.update ''quality_warning'' (PBool True)
                                    (extra_data data_chunk)\<rparr>
                           else data_chunk)
                    in (Inr data_chunk, st)))"

subsection \<open>\<open>filter_by_quality\<close>\<close>

fun filter_chunks :: "real \<Rightarrow> DataChunk list \<Rightarrow> pyexn + DataChunk list" where
  \<comment> \<open>the loop of \<open>filter_by_quality\<close>\<close>
  "filter_chunks min_score [] = Inr []"
| "filter_chunks min_score (chunk # data_chunks) =
     (let quality_score = dict_get (extra_data chunk) ''quality_score'' PNone in
      if truthy quality_score
      then (case quality_score of
              PScore q \<Rightarrow>
                (case filter_chunks min_score data_chunks of
                   Inl e \<Rightarrow> Inl e
                 | Inr filtered_chunks \<Rightarrow>
                     Inr (if overall_score q \<ge> min_score then chunk # filtered_chunks
                          else filtered_chunks))
            | _ \<Rightarrow> Inl (attribute_error (type_name quality_score) ''overall_score''))
      else filter_chunks min_score data_chunks)"

definition filter_by_quality :: "EvaluatorConfig \<Rightarrow> DataChunk list \<Rightarrow> real option \<Rightarrow> pyexn + DataChunk list" where
  "filter_by_quality cfg data_chunks min_score =
     filter_chunks (case min_score of None \<Rightarrow> min_quality_score cfg | Some m \<Rightarrow> m) data_chunks"

section \<open>The pipeline controller (\<open>skills/pipeline.py\<close>)\<close>

subsection \<open>\<open>PipelineConfig\<close> (\<open>models.py\<close>)\<close>

record PipelineConfig =
  parser_enabled :: bool
  cleaner_enabled :: bool
  enhancer_enabled :: bool
  evaluator_enabled :: bool
  parser_params :: "(string \<times> pyval) list"
  cleaner_params :: "(string \<times> pyval) list"
  enhancer_params :: "(string \<times> pyval) list"
  evaluator_params :: "(string \<times> pyval) list"
  batch_size :: int
  max_workers :: int
  checkpoint_enabled :: bool
  error_handling :: string

text \<open>
  Reading an attribute of the configuration object. \<open>PipelineConfig.__init__\<close> assigns
  the twelve attributes of the record and no other; the class has no class attributes,
  no \<open>__getattr__\<close>, and nothing in the repository assigns another attribute to the
  object, so any other name raises \<open>AttributeError\<close>.
\<close>

definition config_getattr :: "PipelineConfig \<Rightarrow> string \<Rightarrow> pyexn + pyval" where
  "config_getattr c a =
     (if a = ''parser_enabled'' then Inr (PBool (parser_enabled c))
      else if a = ''cleaner_enabled'' then Inr (PBool (cleaner_enabled c))
      else if a = ''enhancer_enabled'' then Inr (PBool (enhancer_enabled c))
      else if a = ''evaluator_enabled'' then Inr (PBool (evaluator_enabled c))
      else if a = ''parser_params'' then Inr (PDict (parser_params c))
      else if a = ''cleaner_params'' then Inr (PDict (cleaner_params c))
      else if a = ''enhancer_params'' then Inr (PDict (enhancer_params c))
      else if a = ''evaluator_params'' then Inr (PDict (evaluator_params c))
      else if a = ''batch_size'' then Inr (PInt (batch_size c))
      else if a = ''max_workers'' then Inr (PInt (max_workers c))
      else if a = ''checkpoint_enabled'' then Inr (PBool (checkpoint_enabled c))
      else if a = ''error_handling'' then Inr (PStr (ascii (error_handling c)))
      else Inl (attribute_error ''PipelineConfig'' a))"

subsection \<open>The pipeline object and its state\<close>

record PipelineStats =
  total_files :: nat
  processed_files :: nat
  failed_files :: nat
  total_chunks :: nat
  processed_chunks :: nat
  failed_chunks :: nat

record Pipeline =
  pipeline_config :: PipelineConfig
  skills :: "string list"
  cleaner_config :: CleanerConfig
  enhancer_config :: EnhancerConfig
  evaluator_config :: EvaluatorConfig

record PipelineState =
  processing_stats :: PipelineStats
  cleaner_state :: "Monitor \<times> CleanerState"
  enhancer_state :: "Monitor \<times> EnhancerState"
  evaluator_state :: "Monitor \<times> EvaluatorState"

text \<open>
  The file system: the parser (\<open>parse_file\<close> raises for a file it cannot read) and the
  writer of the final dataset (\<open>Some e\<close> when writing raises \<open>e\<close>). Checkpoint files are
  diagnostics that nothing reads back during a run, and a failing checkpoint write is
  caught and logged, so they are not kept in the model.
\<close>

record file_system =
  parse_file :: "ustring \<Rightarrow> pyexn + DataChunk list"
  save_processed_data :: "ProcessedData \<Rightarrow> ustring \<Rightarrow> pyexn option"

definition load_pipeline_config ::
  "int \<Rightarrow> int \<Rightarrow> bool \<Rightarrow> string \<Rightarrow> CleanerConfig \<Rightarrow> EnhancerConfig \<Rightarrow> EvaluatorConfig \<Rightarrow> PipelineConfig" where
  \<comment> \<open>\<open>PipelineConfig()\<close> followed by \<open>_load_pipeline_config\<close>: the four values of the
      pipeline section, then the stages' switches\<close>
  "load_pipeline_config bs mw ce eh ccfg ecfg vcfg =
     \<lparr>parser_enabled = True,
      cleaner_enabled = remove_duplicates ccfg,
      enhancer_enabled = enable_qa_generation ecfg,
      evaluator_enabled = (quality_metrics vcfg \<noteq> []),
      parser_params = [], cleaner_params = [], enhancer_params = [], evaluator_params = [],
      batch_size = bs, max_workers = mw, checkpoint_enabled = ce, error_handling = eh\<rparr>"

definition init_skills :: "PipelineConfig \<Rightarrow> string list" where
  \<comment> \<open>the keys of \<open>self.skills\<close> after \<open>_init_skills\<close>\<close>
  "init_skills c =
     [''parser''] @ (if cleaner_enabled c then [''cleaner''] else [])
     @ (if enhancer_enabled c then [''enhancer''] else [])
     @ (if evaluator_enabled c then [''evaluator''] else [])"

subsection \<open>\<open>_process_batches\<close> and \<open>_process_chunks\<close>\<close>

definition skill_process_batch ::
  "runtime \<Rightarrow> Pipeline \<Rightarrow> string \<Rightarrow> PipelineState \<Rightarrow> DataChunk list \<Rightarrow> DataChunk list \<times> PipelineState" where
  \<comment> \<open>\<open>skill.process_batch(batch)\<close> for the stage stored under the name\<close>
  "skill_process_batch E P skill_name st batch =
     (if skill_name = ''cleaner''
      then (case monitored_process_batch cleaner_name
                   (cleaner_process_single E (cleaner_config P)) (cleaner_state st) batch of
              (out, ms) \<Rightarrow> (out, st\<lparr>cleaner_state := ms\<rparr>))
      else if skill_name = ''enhancer''
      then (case monitored_process_batch enhancer_name
                   (enhancer_process_single E (enhancer_config P)) (enhancer_state st) batch of
              (out, ms) \<Rightarrow> (out, st\<lparr>enhancer_state := ms\<rparr>))
      else (case monitored_process_batch evaluator_name
                   (evaluator_process_single E (evaluator_config P)) (evaluator_state st) batch of
              (out, ms) \<Rightarrow> (out, st\<lparr>evaluator_state := ms\<rparr>)))"

function slices :: "nat \<Rightarrow> 'a list \<Rightarrow> 'a list list" where
  \<comment> \<open>\<open>[xs[i:i + n] for i in range(0, len(xs), n)]\<close> for a positive \<open>n\<close>\<close>
  "slices n xs = (if n = 0 \<or> xs = [] then [] else take n xs # slices n (drop n xs))"
  by pat_completeness auto
termination
  by (relation "measure (\<lambda>(n, xs). length xs)") auto

fun run_batches ::
  "runtime \<Rightarrow> Pipeline \<Rightarrow> string \<Rightarrow> PipelineState \<Rightarrow> DataChunk list list \<Rightarrow> DataChunk list \<times> PipelineState" where
  "run_batches E P skill_name st [] = ([], st)"
| "run_batches E P skill_name st (batch # rest) =
     (case skill_process_batch E P skill_name st batch of
        (processed_batch, st1) \<Rightarrow>
          (case run_batches E P skill_name st1 rest of
             (collected, st2) \<Rightarrow> (processed_batch @ collected, st2)))"

definition parallel_requested :: "PipelineConfig \<Rightarrow> pyexn + bool" where
  \<comment> \<open>the condition \<open>max_workers > 1 and parallel_processing\<close> of \<open>_process_batches\<close>\<close>
  "parallel_requested c =
     (case config_getattr c ''max_workers'' of
        Inr (PInt w) \<Rightarrow>
          if w > 1 then map_sum id truthy (config_getattr c ''parallel_processing'')
          else Inr False
      | Inr v \<Rightarrow> Inl (type_error v)
      | Inl e \<Rightarrow> Inl e)"

definition process_parallel ::
  "runtime \<Rightarrow> Pipeline \<Rightarrow> string \<Rightarrow> PipelineState \<Rightarrow> DataChunk list \<Rightarrow> int \<Rightarrow>
     (pyexn + DataChunk list) \<times> PipelineState" where
  \<comment> \<open>\<open>_process_parallel\<close>: the batches are collected in the order of submission; the
      interleaving of the worker threads is not modelled\<close>
  "process_parallel E P skill_name st chunk_list bs =
     (if bs = 0
      then (Inl (PyExn ''ValueError'' (ascii ''range() arg 3 must not be zero'')), st)
      else (case run_batches E P skill_name st
                   (if bs < 0 then [] else slices (nat bs) chunk_list) of
              (collected, st') \<Rightarrow> (Inr collected, st')))"

definition process_batches ::
  "runtime \<Rightarrow> Pipeline \<Rightarrow> string \<Rightarrow> PipelineState \<Rightarrow> DataChunk list \<Rightarrow> int \<Rightarrow>
     (pyexn + DataChunk list) \<times> PipelineState" where
  "process_batches E P skill_name st chunk_list bs =
     (case parallel_requested (pipeline_config P) of
        Inl e \<Rightarrow> (Inl e, st)
      | Inr True \<Rightarrow> process_parallel E P skill_name st chunk_list bs
      | Inr False \<Rightarrow>
          if bs = 0
          then (Inl (PyExn ''ValueError'' (ascii ''range() arg 3 must not be zero'')), st)
          else (case run_batches E P skill_name st
                       (if bs < 0 then [] else slices (nat bs) chunk_list) of
                  (collected, st') \<Rightarrow> (Inr collected, st')))"

fun process_skills ::
  "runtime \<Rightarrow> Pipeline \<Rightarrow> string list \<Rightarrow> PipelineState \<Rightarrow> DataChunk list \<Rightarrow>
     (pyexn + DataChunk list) \<times> PipelineState" where
  \<comment> \<open>the loop of \<open>_process_chunks\<close> over the skill order\<close>
  "process_skills E P [] st chunk_list = (Inr chunk_list, st)"
| "process_skills E P (skill_name # rest) st chunk_list =
     (if skill_name \<in> set (skills P)
      then (case process_batches E P skill_name st chunk_list (batch_size (pipeline_config P)) of
              (Inl e, st1) \<Rightarrow> (Inl e, st1)
            | (Inr collected, st1) \<Rightarrow> process_skills E P rest st1 collected)
      else process_skills E P rest st chunk_list)"

definition process_chunks ::
  "runtime \<Rightarrow> Pipeline \<Rightarrow> PipelineState \<Rightarrow> DataChunk list \<Rightarrow>
     (pyexn + DataChunk list) \<times> PipelineState" where
  "process_chunks E P st chunk_list =
     process_skills E P [''cleaner'', ''enhancer'', ''evaluator''] st chunk_list"

subsection \<open>\<open>process_files\<close>\<close>

record ProcessingResult =
  success :: bool
  data :: "ProcessedData option"
  result_error_message :: "ustring option"
  result_stats :: PipelineStats

fun parse_all ::
  "file_system \<Rightarrow> string \<Rightarrow> ustring list \<Rightarrow> PipelineStats \<Rightarrow> (pyexn + DataChunk list) \<times> PipelineStats" where
  \<comment> \<open>the parsing loop; under the policy \<open>stop\<close> a failure is raised again\<close>
  "parse_all F policy [] stats = (Inr [], stats)"
| "parse_all F policy (path # rest) stats =
     (case parse_file F path of
        Inr new_chunks \<Rightarrow>
          (case parse_all F policy rest (stats\<lparr>processed_files := processed_files stats + 1\<rparr>) of
             (Inr all_chunks, stats') \<Rightarrow> (Inr (new_chunks @ all_chunks), stats')
           | (Inl e, stats') \<Rightarrow> (Inl e, stats'))
      | Inl e \<Rightarrow>
          if policy = ''stop''
          then (Inl e, stats\<lparr>failed_files := failed_files stats + 1\<rparr>)
          else parse_all F policy rest (stats\<lparr>failed_files := failed_files stats + 1\<rparr>))"

definition qa_fields :: "string list" where
  "qa_fields = [''question'', ''answer'', ''context'', ''difficulty'', ''domain'', ''confidence'',
                ''metadata'']"

definition qa_from_kwargs :: "pyval \<Rightarrow> pyexn + QAData" where
  \<comment> \<open>\<open>QAData(**qa_data)\<close>: the dictionary gives the fields by name; \<open>question\<close> and
      \<open>answer\<close> are required, the others default to \<open>None\<close> and the empty dictionary\<close>
  "qa_from_kwargs qa_data =
     (case qa_data of
        PDict d \<Rightarrow>
          if \<not> (set (map fst d) \<subseteq> set qa_fields) \<or> ''question'' \<notin> set (map fst d)
             \<or> ''answer'' \<notin> set (map fst d)
          then Inl (type_error qa_data)
          else Inr \<lparr>question = dict_get d ''question'' PNone,
                    answer = dict_get d ''answer'' PNone,
                    qa_context = dict_get d ''context'' PNone,
                    difficulty = dict_get d ''difficulty'' PNone,
                    domain = dict_get d ''domain'' PNone,
                    confidence = dict_get d ''confidence'' PNone,
                    qa_metadata = dict_get d ''metadata'' (PDict [])\<rparr>
      | _ \<Rightarrow> Inl (type_error qa_data))"

fun qa_from_list :: "pyval list \<Rightarrow> pyexn + QAData list" where
  "qa_from_list [] = Inr []"
| "qa_from_list (qa_data # rest) =
     (case qa_from_kwargs qa_data of
        Inl e \<Rightarrow> Inl e
      | Inr qa \<Rightarrow> map_sum id (\<lambda>qas. qa # qas) (qa_from_list rest))"

fun collect_qa_pairs :: "DataChunk list \<Rightarrow> pyexn + QAData list" where
  \<comment> \<open>the loop that adds the pairs of every chunk to the dataset\<close>
  "collect_qa_pairs [] = Inr []"
| "collect_qa_pairs (chunk # rest) =
     (case map_of (extra_data chunk) ''generated_qa'' of
        None \<Rightarrow> collect_qa_pairs rest
      | Some v \<Rightarrow>
          (case py_iter v of
             Inl e \<Rightarrow> Inl e
           | Inr entries \<Rightarrow>
               (case qa_from_list entries of
                  Inl e \<Rightarrow> Inl e
                | Inr qas \<Rightarrow> map_sum id (\<lambda>more. qas @ more) (collect_qa_pairs rest))))"

function decimal :: "nat \<Rightarrow> ustring" where
  \<comment> \<open>\<open>str(n)\<close>\<close>
  "decimal n = (if n < 10 then [48 + n] else decimal (n div 10) @ [48 + n mod 10])"
  by pat_completeness auto
termination
  by (relation "measure id") auto

definition failure_result :: "pyexn \<Rightarrow> PipelineStats \<Rightarrow> ProcessingResult" where
  \<comment> \<open>the result the outer exception handler of \<open>process_files\<close> builds\<close>
  "failure_result e stats =
     \<lparr>success = False, data = None, result_error_message = Some (exn_msg e),
      result_stats = stats\<rparr>"

definition process_files ::
  "runtime \<Rightarrow> file_system \<Rightarrow> Pipeline \<Rightarrow> PipelineState \<Rightarrow> ustring list \<Rightarrow> ustring option \<Rightarrow>
     ProcessingResult \<times> PipelineState" where
  \<comment> \<open>the description is U+5904 U+7406, the number of files, and
      U+4E2A U+6587 U+4EF6 U+751F U+6210 U+7684 U+6570 U+636E\<close>
  "process_files E F P st file_paths output_path =
     (let stats = (processing_stats st)\<lparr>total_files := length file_paths\<rparr> in
      case parse_all F (error_handling (pipeline_config P)) file_paths stats of
        (Inl e, stats) \<Rightarrow> (failure_result e stats, st\<lparr>processing_stats := stats\<rparr>)
      | (Inr all_chunks, stats) \<Rightarrow>
          let stats = stats\<lparr>total_chunks := length all_chunks\<rparr>;
              st = st\<lparr>processing_stats := stats\<rparr>
          in
          case (if all_chunks \<noteq> [] then process_chunks E P st all_chunks
                else (Inr [], st)) of
            (Inl e, st) \<Rightarrow> (failure_result e stats, st)
          | (Inr result_chunks, st) \<Rightarrow>
              (case collect_qa_pairs result_chunks of
                 Inl e \<Rightarrow> (failure_result e stats, st)
               | Inr qas \<Rightarrow>
                   let processed_data =
                         \<lparr>description = [22788, 29702, 32] @ decimal (length file_paths)
                                          @ [32, 20010, 25991, 20214, 29983, 25104, 30340, 25968,
                                             25454],
                          chunks = result_chunks, qa_pairs = qas, pd_quality_score = None,
                          pd_metadata = []\<rparr>
                   in case (case output_path of
                              Some path \<Rightarrow> if path \<noteq> [] then save_processed_data F processed_data path
                                            else None
                            | None \<Rightarrow> None) of
                        Some e \<Rightarrow> (failure_result e stats, st)
                      | None \<Rightarrow>
                          let stats = stats\<lparr>processed_chunks := length result_chunks\<rparr> in
                          (\<lparr>success = True, data = Some processed_data,
                            result_error_message = None, result_stats = stats\<rparr>,
                           st\<lparr>processing_stats := stats\<rparr>)))"

subsection \<open>\<open>get_processing_report\<close>\<close>

definition get_processing_report :: "Pipeline \<Rightarrow> PipelineState \<Rightarrow> pyexn + (string \<times> pyval) list" where
  \<comment> \<open>the report's \<open>config\<close> entry reads five attributes of the configuration object in
      turn; the entries \<open>dataflow_enabled\<close> and \<open>skill_statistics\<close> would follow it\<close>
  "get_processing_report P st =
     (let c = pipeline_config P in
      case config_getattr c ''batch_size'' of Inl e \<Rightarrow> Inl e | Inr v1 \<Rightarrow>
      case config_getattr c ''max_workers'' of Inl e \<Rightarrow> Inl e | Inr v2 \<Rightarrow>
      case config_getattr c ''checkpoint_enabled'' of Inl e \<Rightarrow> Inl e | Inr v3 \<Rightarrow>
      case config_getattr c ''error_handling'' of Inl e \<Rightarrow> Inl e | Inr v4 \<Rightarrow>
      case config_getattr c ''parallel_processing'' of Inl e \<Rightarrow> Inl e | Inr v5 \<Rightarrow>
        Inr [(''pipeline_name'', PStr (ascii ''HydroDataPipeline'')),
             (''skills'', PList (map (\<lambda>k. PStr (ascii k)) (skills P))),
             (''statistics'',
                PDict [(''total_files'', PInt (int (total_files (processing_stats st)))),
                       (''processed_files'', PInt (int (processed_files (processing_stats st)))),
                       (''failed_files'', PInt (int (failed_files (processing_stats st)))),
                       (''total_chunks'', PInt (int (total_chunks (processing_stats st)))),
                       (''processed_chunks'',
                          PInt (int (processed_chunks (processing_stats st)))),
                       (''failed_chunks'', PInt (int (failed_chunks (processing_stats st))))]),
             (''config'', PDict [(''batch_size'', v1), (''max_workers'', v2),
                                 (''checkpoint_enabled'', v3), (''error_handling'', v4),
                                 (''parallel_processing'', v5)])])"

section \<open>Notions of the specification\<close>

definition has_quality_at_least :: "real \<Rightarrow> DataChunk \<Rightarrow> bool" where
  \<comment> \<open>the chunk carries a quality score whose overall score is at least the threshold\<close>
  "has_quality_at_least t chunk =
     (case map_of (extra_data chunk) ''quality_score'' of
        Some (PScore q) \<Rightarrow> overall_score q \<ge> t
      | _ \<Rightarrow> False)"

definition score_entry_ok :: "DataChunk \<Rightarrow> bool" where
  \<comment> \<open>under the key \<open>quality_score\<close> the bag holds nothing, a \<open>QualityScore\<close> object, or a
      value that Python takes for false\<close>
  "score_entry_ok chunk =
     (case map_of (extra_data chunk) ''quality_score'' of
        None \<Rightarrow> True
      | Some (PScore q) \<Rightarrow> True
      | Some v \<Rightarrow> \<not> truthy v)"

definition scored_chunk :: "ustring \<Rightarrow> real \<Rightarrow> DataChunk" where
  \<comment> \<open>an example chunk that carries a quality score with the given overall score\<close>
  "scored_chunk cid x =
     (new_chunk cid (ascii ''text''))
       \<lparr>extra_data := [(''quality_score'',
            PScore \<lparr>overall_score = x, completeness_score = x, relevance_score = x,
                    consistency_score = x, diversity_score = x, details = []\<rparr>)]\<rparr>"

definition stage_like :: "'s transform \<Rightarrow> bool" where
  \<comment> \<open>a single-chunk transform that treats the chunk as the stages do: the chunk it
      returns is the chunk it was given, with a history that was only appended to, and a
      chunk on which it raises is left as it was\<close>
  "stage_like process_single =
     (\<forall>s c. case fst (process_single s c) of
              Inr p \<Rightarrow> chunk_id p = chunk_id c
                       \<and> prefix (process_metadata c) (process_metadata p)
            | Inl (e, c') \<Rightarrow> c' = c)"

fun batch_states :: "'s transform \<Rightarrow> 's \<Rightarrow> DataChunk list \<Rightarrow> 's list" where
  \<comment> \<open>the state of the stage when \<open>process_batch\<close> reaches each chunk of the batch\<close>
  "batch_states process_single s [] = []"
| "batch_states process_single s (chunk # data_chunks) =
     s # batch_states process_single (snd (process_single s chunk)) data_chunks"

definition batch_step :: "string \<Rightarrow> 's transform \<Rightarrow> 's \<times> DataChunk \<Rightarrow> DataChunk \<Rightarrow> bool" where
  \<comment> \<open>what the batch contract promises for one chunk: given the state and the input
      chunk, the output chunk is the transformed chunk with a COMPLETED record appended
      or, when the transform raises, the input chunk with a FAILED record that carries
      the message of the exception\<close>
  "batch_step name process_single sc out =
     (case fst (process_single (fst sc) (snd sc)) of
        Inr p \<Rightarrow> out = p\<lparr>process_metadata := process_metadata p @ [completed_metadata name]\<rparr>
      | Inl (e, c') \<Rightarrow>
          out = (snd sc)\<lparr>process_metadata := process_metadata (snd sc)
                   @ [\<lparr>processor_name = name, status = FAILED,
                        error_message = Some (exn_msg e)\<rparr>]\<rparr>)"

definition loguru_start_time :: "pyexn + pyval" where
  \<comment> \<open>the read \<open>logger._core.start_time\<close> with loguru, whose \<open>Core\<close> object has no
      attribute \<open>start_time\<close>\<close>
  "loguru_start_time = Inl (attribute_error ''Core'' ''start_time'')"

definition example_runtime :: runtime where
  \<comment> \<open>a runtime without the optional NLP libraries, with numpy and with the logger of loguru; for
      the code points beyond the blocks the model classifies itself it knows no letters,
      digits or case\<close>
  "example_runtime =
     \<lparr>uni_word = (\<lambda>c. False), uni_digit = (\<lambda>c. False), uni_lower = (\<lambda>c. [c]),
      jieba_lcut = None, pseg_cut = None, nlp_en = None, numpy_imported = True,
      md5_of_text = (\<lambda>t. Inr (map (\<lambda>c. char_of (c mod 256)) t)),
      logger_start_time = loguru_start_time, str_of_value = (\<lambda>v. []), random_draw = (\<lambda>k. 0)\<rparr>"

definition default_cleaner_config :: CleanerConfig where
  \<comment> \<open>the defaults of \<open>HydroDataCleaner.__init__\<close>\<close>
  "default_cleaner_config =
     \<lparr>remove_duplicates = True, normalize_whitespace = True, remove_special_chars = False,
      min_text_length = 10, similarity_threshold = 0.85\<rparr>"

definition default_enhancer_config :: EnhancerConfig where
  "default_enhancer_config =
     \<lparr>enable_qa_generation = True, enable_term_extraction = True,
      enable_knowledge_enrichment = True, qa_model_loaded = False\<rparr>"

definition default_evaluator_config :: EvaluatorConfig where
  "default_evaluator_config =
     \<lparr>quality_metrics = [''completeness'', ''relevance'', ''consistency'', ''diversity''],
      thresholds = [(''min_quality_score'', 0.7), (''min_relevance_score'', 0.6)]\<rparr>"

definition init_cleaner_state :: CleanerState where
  "init_cleaner_state = \<lparr>seen_hashes = {}, seen_contents = []\<rparr>"

definition init_enhancer_state :: EnhancerState where
  "init_enhancer_state =
     \<lparr>knowledge_base = init_hydro_knowledge_base, generated_qa_count = 0,
      extracted_terms_count = 0, draws = 0\<rparr>"

definition init_evaluator_state :: EvaluatorState where
  "init_evaluator_state = \<lparr>evaluation_history = [], quality_distribution = []\<rparr>"

definition init_monitor :: Monitor where
  "init_monitor = \<lparr>processed_count = 0, failed_count = 0\<rparr>"

definition chunk_after :: "(pyexn \<times> DataChunk) + DataChunk \<Rightarrow> DataChunk" where
  \<comment> \<open>the chunk object after the transform, whether it returned or raised\<close>
  "chunk_after r = (case r of Inr p \<Rightarrow> p | Inl (e, c') \<Rightarrow> c')"

definition picky_transform :: "nat transform" where
  \<comment> \<open>an example of a transform that raises: it refuses a chunk without text and counts
      the chunks it accepts\<close>
  "picky_transform n c =
     (if content c = [] then (Inl (PyExn ''ValueError'' (ascii ''no text''), c), n)
      else (Inr c, Suc n))"

definition keeps_history :: "DataChunk \<Rightarrow> (pyexn \<times> DataChunk) + DataChunk \<Rightarrow> bool" where
  \<comment> \<open>the transform returned, and the chunk it returned has the identifier of the chunk
      it was given and a history that the given chunk's history is a prefix of\<close>
  "keeps_history c r =
     (\<exists>p. r = Inr p \<and> chunk_id p = chunk_id c
          \<and> prefix (process_metadata c) (process_metadata p))"

definition example_pipeline :: Pipeline where
  \<comment> \<open>the pipeline that the default configuration builds: batches of 100, four workers\<close>
  "example_pipeline =
     (let c = load_pipeline_config 100 4 True ''skip'' default_cleaner_config
                default_enhancer_config default_evaluator_config
      in \<lparr>pipeline_config = c, skills = init_skills c,
           cleaner_config = default_cleaner_config,
           enhancer_config = default_enhancer_config,
           evaluator_config = default_evaluator_config\<rparr>)"

definition init_pipeline_state :: PipelineState where
  "init_pipeline_state =
     \<lparr>processing_stats = \<lparr>total_files = 0, processed_files = 0, failed_files = 0,
                           total_chunks = 0, processed_chunks = 0, failed_chunks = 0\<rparr>,
      cleaner_state = (init_monitor, init_cleaner_state),
      enhancer_state = (init_monitor, init_enhancer_state),
      evaluator_state = (init_monitor, init_evaluator_state)\<rparr>"

definition example_files :: file_system where
  \<comment> \<open>a file system in which every file parses to one chunk with the text
      \<open>river flow\<close> and writing succeeds\<close>
  "example_files =
     \<lparr>parse_file = (\<lambda>path. Inr [new_chunk path (ascii ''river flow'')]),
      save_processed_data = (\<lambda>d path. None)\<rparr>"

definition jaccard :: "nat set \<Rightarrow> nat set \<Rightarrow> real" where
  \<comment> \<open>the similarity of two character sets as the specification words it: the size of
      the intersection over the size of the union\<close>
  "jaccard A B = real (card (A \<inter> B)) / real (card (A \<union> B))"

definition detected_duplicate :: "runtime \<Rightarrow> CleanerConfig \<Rightarrow> CleanerState \<Rightarrow> ustring \<Rightarrow> bool" where
  \<comment> \<open>the hash of the cleaned text is registered, or the text is more similar to a
      registered text than the threshold\<close>
  "detected_duplicate E cfg st text =
     ((case md5_of_text E text of Inr h \<Rightarrow> h \<in> seen_hashes st | Inl e \<Rightarrow> False)
      \<or> list_ex (\<lambda>c. jaccard (set (str_lower E text)) (set (str_lower E c))
                         > similarity_threshold cfg)
                 (map snd (seen_contents st)))"

definition marked_skipped :: "DataChunk \<Rightarrow> DataChunk" where
  \<comment> \<open>the chunk with nothing changed but one SKIPPED record of the Cleaner appended\<close>
  "marked_skipped c =
     c\<lparr>process_metadata := process_metadata c
          @ [\<lparr>processor_name = cleaner_name, status = SKIPPED,
               error_message = Some duplicate_message\<rparr>]\<rparr>"

definition station_text :: ustring where
  \<comment> \<open>an example text: U+6C34 U+6587 and two English words\<close>
  "station_text = [27700, 25991, 32] @ ascii ''station data''"

definition question_and_answer :: "QAData \<Rightarrow> QAData" where
  \<comment> \<open>the pair with its question and answer, every other field at its default\<close>
  "question_and_answer qa =
     \<lparr>question = question qa, answer = answer qa, qa_context = PNone, difficulty = PNone,
      domain = PNone, confidence = PNone, qa_metadata = PDict []\<rparr>"

definition distance_chunk :: DataChunk where
  \<comment> \<open>an example chunk whose text is a number with a unit\<close>
  "distance_chunk = new_chunk (ascii ''c1'') (ascii ''12 km'')"

definition distance_qa :: QAData where
  \<comment> \<open>the pair the Enhancer generates for the example chunk; its question is U+6587
      U+4E2D U+63D0 U+5230 U+7684, the number, and U+8FD9 U+4E2A U+6570 U+636E U+4EE3 U+8868
      U+4EC0 U+4E48 U+542B U+4E49 U+FF1F\<close>
  "distance_qa =
     make_qa ([25991, 20013, 25552, 21040, 30340] @ ascii ''12 km''
                @ [36825, 20010, 25968, 25454, 20195, 34920, 20160, 20040, 21547, 20041, 65311])
             ([26681, 25454, 21407, 25991, 20869, 23481, 65292] @ ascii ''12 km'')
             (ascii ''12 km'') [25968, 25454] 0.7"

definition weight_of :: "string \<Rightarrow> real" where
  \<comment> \<open>the weight of a metric, 0.25 for a metric without a configured weight\<close>
  "weight_of metric = (case map_of metric_weights metric of None \<Rightarrow> 0.25 | Some w \<Rightarrow> w)"

definition weighted_mean :: "(string \<times> real) list \<Rightarrow> real" where
  \<comment> \<open>the overall score as the specification words it: the weighted sum of the
      sub-scores over the sum of their weights\<close>
  "weighted_mean scores =
     (\<Sum>(metric, score) \<leftarrow> scores. score * weight_of metric)
       / (\<Sum>(metric, score) \<leftarrow> scores. weight_of metric)"

definition unit_interval :: "real \<Rightarrow> bool" where
  "unit_interval x = (0 \<le> x \<and> x \<le> 1)"







section \<open>Verified properties\<close>

subsection \<open>Evaluation\<close>

text \<open>The definitions that evaluate a text transform at a given text.\<close>

lemmas rx_defs = lit_def one_of_def rx_plus_def rx_star_def rx_opt_def str_rx_def
  match_len_def at_boundary_def re_sub_def re_search_def re_findall_def re_split_def
lemmas cls_defs = is_cjk_def is_cjk_ext_a_def is_upper_ascii_def is_lower_ascii_def
  is_alpha_ascii_def is_digit_ascii_def fullwidth_punct_def is_space_def is_digit_def
  is_word_def ci_extra_def ci_alpha_def ci_lit_def ascii_def
lemmas cleaner_defs = basic_text_cleaning_def cleanup_patterns_def rx_whitespace_def
  rx_newlines_def rx_html_tag_def rx_url_def rx_email_def rx_punct_run_def
  rx_digit_letter_def space_between_def contains_chinese_def rx_blanks_def
  chinese_punctuation_map_def py_replace_def py_strip_def
  language_specific_cleaning_def english_text_cleaning_def chinese_text_cleaning_def
  mixed_language_cleaning_def advanced_text_cleaning_def fix_common_errors_def
  error_fixes_def punct6_def rx_special_char_def cleaning_steps_def

subsection \<open>The batch contract\<close>

lemma process_batch_Cons:
  "fst (process_batch name ps s (c # cs)) =
     (case fst (ps s c) of
        Inr p \<Rightarrow> add_process_metadata p (completed_metadata name)
      | Inl (e, c') \<Rightarrow> add_process_metadata c' (error_metadata name e))
     # fst (process_batch name ps (snd (ps s c)) cs)"
  by (cases "ps s c") (auto split: prod.splits sum.splits)

declare process_batch.simps(2) [simp del]

lemma process_batch_length:
  "length (fst (process_batch name ps s data_chunks)) = length data_chunks"
  by (induction data_chunks arbitrary: s) (simp_all add: process_batch_Cons)

lemma stage_likeD:
  assumes "stage_like ps"
  shows "fst (ps s c) = Inr p \<Longrightarrow>
           chunk_id p = chunk_id c \<and> prefix (process_metadata c) (process_metadata p)"
    and "fst (ps s c) = Inl (e, c') \<Longrightarrow> c' = c"
proof -
  from assms have "case fst (ps s c) of
      Inr p \<Rightarrow> chunk_id p = chunk_id c \<and> prefix (process_metadata c) (process_metadata p)
    | Inl (e, c') \<Rightarrow> c' = c"
    unfolding stage_like_def by blast
  then show "fst (ps s c) = Inr p \<Longrightarrow>
           chunk_id p = chunk_id c \<and> prefix (process_metadata c) (process_metadata p)"
    and "fst (ps s c) = Inl (e, c') \<Longrightarrow> c' = c"
    by simp_all
qed

lemma process_batch_ids:
  assumes "stage_like ps"
  shows "map chunk_id (fst (process_batch name ps s data_chunks)) = map chunk_id data_chunks"
proof (induction data_chunks arbitrary: s)
  case Nil
  show ?case by simp
next
  case (Cons c cs)
  show ?case
  proof (cases "fst (ps s c)")
    case (Inl ec)
    obtain e c' where ec: "ec = (e, c')" by (cases ec)
    with Inl stage_likeD(2) [OF assms] have "c' = c" by blast
    with Inl ec Cons show ?thesis
      by (simp add: process_batch_Cons add_process_metadata_def)
  next
    case (Inr p)
    with stage_likeD(1) [OF assms] have "chunk_id p = chunk_id c" by blast
    with Inr Cons show ?thesis
      by (simp add: process_batch_Cons add_process_metadata_def)
  qed
qed

lemma process_batch_steps:
  assumes "stage_like ps"
  shows "list_all2 (batch_step name ps) (zip (batch_states ps s data_chunks) data_chunks)
           (fst (process_batch name ps s data_chunks))"
proof (induction data_chunks arbitrary: s)
  case Nil
  show ?case by simp
next
  case (Cons c cs)
  have "batch_step name ps (s, c)
          (case fst (ps s c) of
             Inr p \<Rightarrow> add_process_metadata p (completed_metadata name)
           | Inl (e, c') \<Rightarrow> add_process_metadata c' (error_metadata name e))"
  proof (cases "fst (ps s c)")
    case (Inl ec)
    obtain e c' where ec: "ec = (e, c')" by (cases ec)
    with Inl stage_likeD(2) [OF assms] have "c' = c" by blast
    with Inl ec show ?thesis
      by (simp add: batch_step_def add_process_metadata_def error_metadata_def)
  next
    case (Inr p)
    then show ?thesis
      by (simp add: batch_step_def add_process_metadata_def)
  qed
  with Cons show ?case
    by (simp add: process_batch_Cons)
qed

lemma process_batch_grows:
  assumes "stage_like ps"
  shows "list_all2 (\<lambda>c out. strict_prefix (process_metadata c) (process_metadata out))
           data_chunks (fst (process_batch name ps s data_chunks))"
proof (induction data_chunks arbitrary: s)
  case Nil
  show ?case by simp
next
  case (Cons c cs)
  have "strict_prefix (process_metadata c)
          (process_metadata (case fst (ps s c) of
             Inr p \<Rightarrow> add_process_metadata p (completed_metadata name)
           | Inl (e, c') \<Rightarrow> add_process_metadata c' (error_metadata name e)))"
  proof (cases "fst (ps s c)")
    case (Inl ec)
    obtain e c' where ec: "ec = (e, c')" by (cases ec)
    with Inl stage_likeD(2) [OF assms] have "c' = c" by blast
    with Inl ec show ?thesis
      by (simp add: add_process_metadata_def strict_prefix_def)
  next
    case (Inr p)
    with stage_likeD(1) [OF assms] have "prefix (process_metadata c) (process_metadata p)" by blast
    then obtain zs where "process_metadata p = process_metadata c @ zs" by (auto simp: prefix_def)
    with Inr show ?thesis
      by (simp add: add_process_metadata_def strict_prefix_def)
  qed
  with Cons show ?case
    by (simp add: process_batch_Cons)
qed

lemma strict_prefix_longer:
  "strict_prefix xs ys \<Longrightarrow> length xs + 1 \<le> length ys"
  using prefix_length_less [of xs ys] by simp


text \<open>
  C1. For a single-chunk transform that treats the chunk as the stages do,
  \<open>process_batch\<close> returns a list of the length of its input, with the chunks in the
  order of the input; each output chunk is the transformed chunk with a COMPLETED record
  appended or, where the transform raised, the input chunk itself, unmodified but for
  an appended FAILED record that carries the error message; and every output chunk has
  at least one history record more than its input chunk.
\<close>

theorem process_batch_contract:
  assumes "stage_like process_single"
  shows "length (fst (process_batch name process_single s data_chunks)) = length data_chunks
       \<and> map chunk_id (fst (process_batch name process_single s data_chunks))
           = map chunk_id data_chunks
       \<and> list_all2 (batch_step name process_single)
           (zip (batch_states process_single s data_chunks) data_chunks)
           (fst (process_batch name process_single s data_chunks))
       \<and> list_all2 (\<lambda>c out. length (process_metadata c) + 1 \<le> length (process_metadata out))
           data_chunks (fst (process_batch name process_single s data_chunks))"
proof -
  have "list_all2 (\<lambda>c out. length (process_metadata c) + 1 \<le> length (process_metadata out))
           data_chunks (fst (process_batch name process_single s data_chunks))"
    using process_batch_grows [OF assms, of data_chunks name s]
    by (rule list_all2_mono) (rule strict_prefix_longer)
  then show ?thesis
    using process_batch_length [of name process_single s data_chunks]
      process_batch_ids [OF assms, of name s data_chunks]
      process_batch_steps [OF assms, of name s data_chunks]
    by simp
qed

lemma picky_stage_like: "stage_like picky_transform"
  by (simp add: stage_like_def picky_transform_def)

theorem process_batch_contract_witness:
  "stage_like picky_transform
   \<and> fst (process_batch ''Demo'' picky_transform 0
            [new_chunk (ascii ''a'') (ascii ''river''), new_chunk (ascii ''b'') []])
     = [(new_chunk (ascii ''a'') (ascii ''river''))
          \<lparr>process_metadata := [\<lparr>processor_name = ''Demo'', status = COMPLETED,
                                  error_message = None\<rparr>]\<rparr>,
        (new_chunk (ascii ''b'') [])
          \<lparr>process_metadata := [\<lparr>processor_name = ''Demo'', status = FAILED,
                                  error_message = Some (ascii ''no text'')\<rparr>]\<rparr>]
   \<and> batch_step ''Demo'' picky_transform (1, new_chunk (ascii ''b'') [])
        ((new_chunk (ascii ''b'') [])
          \<lparr>process_metadata := [\<lparr>processor_name = ''Demo'', status = FAILED,
                                  error_message = Some (ascii ''no text'')\<rparr>]\<rparr>)"
  using process_batch_contract [OF picky_stage_like, of "''Demo''" 0
      "[new_chunk (ascii ''a'') (ascii ''river''), new_chunk (ascii ''b'') []]"]
  by (simp add: picky_stage_like picky_transform_def new_chunk_def add_process_metadata_def
        completed_metadata_def error_metadata_def batch_step_def ascii_def process_batch_Cons)

subsection \<open>The history of a chunk is only appended to\<close>

lemma pm_set_extra [simp]: "process_metadata (set_extra k v c) = process_metadata c"
  and id_set_extra [simp]: "chunk_id (set_extra k v c) = chunk_id c"
  by (simp_all add: set_extra_def)

lemma pm_enhancer_failed [simp]:
  "process_metadata (enhancer_failed e c) = process_metadata c @ [skill_process_metadata enhancer_name FAILED (Some (exn_msg e))]"
  and id_enhancer_failed [simp]: "chunk_id (enhancer_failed e c) = chunk_id c"
  by (simp_all add: enhancer_failed_def add_process_metadata_def)

lemma keeps_history_Inr [simp]: "keeps_history c (Inr p) = (chunk_id p = chunk_id c \<and> prefix (process_metadata c) (process_metadata p))"
  by (auto simp add: keeps_history_def)

lemma cleaner_returns: "keeps_history c (fst (cleaner_process_single E cfg st c))"
  by (simp add: cleaner_process_single_def Let_def add_process_metadata_def
           split: sum.split prod.split bool.split)

lemma evaluator_returns: "keeps_history c (fst (evaluator_process_single E cfg st c))"
  by (simp add: evaluator_process_single_def Let_def add_process_metadata_def
           split: sum.split prod.split bool.split)


lemma term_extraction_step_keeps:
  "term_extraction_step E cfg st c = (c1, st1) \<Longrightarrow>
   process_metadata c1 = process_metadata c \<and> chunk_id c1 = chunk_id c"
  by (auto simp: term_extraction_step_def Let_def split: if_splits)

lemma qa_generation_step_keeps:
  "qa_generation_step E cfg st c = Inr (c2, st2) \<Longrightarrow>
   process_metadata c2 = process_metadata c \<and> chunk_id c2 = chunk_id c"
  by (auto simp: qa_generation_step_def split: if_splits prod.splits sum.splits)

lemma enrichment_step_keeps:
  "enrichment_step cfg c = Inr c3 \<Longrightarrow>
   process_metadata c3 = process_metadata c \<and> chunk_id c3 = chunk_id c"
  by (auto simp: enrichment_step_def split: if_splits sum.splits)

lemma tagging_step_keeps:
  "process_metadata (chunk_after (tagging_step E c)) = process_metadata c
   \<and> chunk_id (chunk_after (tagging_step E c)) = chunk_id c"
  by (simp add: tagging_step_def chunk_after_def Let_def split: sum.split)

lemma enhancer_end_keeps:
  assumes "process_metadata c3 = process_metadata c" and "chunk_id c3 = chunk_id c"
  shows "keeps_history c
           (Inr (case tagging_step E c3 of Inl (e, c4) \<Rightarrow> enhancer_failed e c4
                 | Inr c4 \<Rightarrow> c4))"
  using assms tagging_step_keeps [of E c3]
  by (cases "tagging_step E c3") (auto simp add: chunk_after_def)

lemma enhancer_end:
  "(case tagging_step E c3 of Inl (e, c4) \<Rightarrow> (Inr (enhancer_failed e c4), st2)
    | Inr c4 \<Rightarrow> (Inr c4, st2))
   = (Inr (case tagging_step E c3 of Inl (e, c4) \<Rightarrow> enhancer_failed e c4 | Inr c4 \<Rightarrow> c4),
      st2)"
  by (simp split: sum.split prod.split)

lemma enhancer_returns: "keeps_history c (fst (enhancer_process_single E cfg st c))"
proof (cases "validate_input c")
  case False
  then show ?thesis by (simp add: enhancer_process_single_def)
next
  case True
  obtain c1 st1 where s1: "term_extraction_step E cfg st c = (c1, st1)"
    by (cases "term_extraction_step E cfg st c")
  note k1 = term_extraction_step_keeps [OF s1]
  show ?thesis
  proof (cases "qa_generation_step E cfg st1 c1")
    case (Inl es)
    with True s1 k1 show ?thesis
      by (cases es) (simp add: enhancer_process_single_def)
  next
    case (Inr cs)
    obtain c2 st2 where cs: "cs = (c2, st2)" by (cases cs)
    note k2 = qa_generation_step_keeps [OF Inr [unfolded cs]]
    show ?thesis
    proof (cases "enrichment_step cfg c2")
      case (Inl e)
      with True s1 k1 Inr cs k2 show ?thesis
        by (simp add: enhancer_process_single_def)
    next
      case r3: (Inr c3)
      note k3 = enrichment_step_keeps [OF r3]
      have k4: "keeps_history c
           (Inr (case tagging_step E c3 of Inl (e, c4) \<Rightarrow> enhancer_failed e c4
                 | Inr c4 \<Rightarrow> c4))"
        using k1 k2 k3 by (intro enhancer_end_keeps) simp_all
      have "fst (enhancer_process_single E cfg st c)
              = Inr (case tagging_step E c3 of Inl (e, c4) \<Rightarrow> enhancer_failed e c4
                     | Inr c4 \<Rightarrow> c4)"
        using True s1 Inr cs r3 by (simp add: enhancer_process_single_def enhancer_end)
      with k4 show ?thesis by simp
    qed
  qed
qed

lemma stages_stage_like:
  "stage_like (cleaner_process_single E ccfg)"
  "stage_like (enhancer_process_single E ecfg)"
  "stage_like (evaluator_process_single E vcfg)"
proof -
  have k: "keeps_history c r \<Longrightarrow>
        (case r of Inr p \<Rightarrow> chunk_id p = chunk_id c
                          \<and> prefix (process_metadata c) (process_metadata p)
         | Inl (e, c') \<Rightarrow> c' = c)" for c r
    by (auto simp: keeps_history_def)
  show "stage_like (cleaner_process_single E ccfg)"
    unfolding stage_like_def using k [OF cleaner_returns] by blast
  show "stage_like (enhancer_process_single E ecfg)"
    unfolding stage_like_def using k [OF enhancer_returns] by blast
  show "stage_like (evaluator_process_single E vcfg)"
    unfolding stage_like_def using k [OF evaluator_returns] by blast
qed

lemma keeps_history_after:
  "keeps_history c r \<Longrightarrow> prefix (process_metadata c) (process_metadata (chunk_after r))"
  by (auto simp: keeps_history_def chunk_after_def)

text \<open>The Enhancer on the example chunk, with the logger of loguru.\<close>

lemma distance_terms:
  "extract_terms example_runtime kb (ascii ''12 km'') AUTO = []"
  by (simp add: extract_terms_def extract_chinese_terms_def extract_english_terms_def
        rx_english_word_def english_hydro_terms_def contains_chinese_def str_lower_def
        lower_char_def example_runtime_def rx_defs cls_defs)

lemma distance_template_qa:
  "generate_template_qa example_runtime distance_chunk k = (Inr [], k)"
  by (simp add: generate_template_qa_def distance_chunk_def new_chunk_def dict_get_def
        py_slice_to_def py_iter_def py_len_def Let_def)

lemma distance_content_qa:
  "generate_content_based_qa example_runtime distance_chunk = [distance_qa]"
  by (simp add: generate_content_based_qa_def distance_chunk_def new_chunk_def distance_qa_def
        rx_number_unit_def find_first_def find_all_def py_slice_def py_strip_def
        example_runtime_def rx_defs cls_defs Let_def)

lemma distance_generated:
  "generate_qa_pairs example_runtime default_enhancer_config distance_chunk k
     = (Inr [distance_qa], k)"
  by (simp add: generate_qa_pairs_def distance_template_qa distance_content_qa
        default_enhancer_config_def)

lemma distance_extraction:
  "term_extraction_step example_runtime default_enhancer_config st distance_chunk
     = (distance_chunk, st)"
  using distance_terms [of "knowledge_base st"]
  by (simp add: term_extraction_step_def distance_chunk_def new_chunk_def)

lemma distance_generation:
  "qa_generation_step example_runtime default_enhancer_config st distance_chunk
     = Inr (set_extra ''generated_qa'' (PList [qa_entry distance_qa]) distance_chunk,
            st\<lparr>draws := draws st, generated_qa_count := generated_qa_count st + 1\<rparr>)"
  by (simp add: qa_generation_step_def distance_generated)
     (simp add: default_enhancer_config_def)

lemma distance_enrichment:
  "enrichment_step default_enhancer_config
     (set_extra ''generated_qa'' v distance_chunk)
     = Inr (set_extra ''generated_qa'' v distance_chunk)"
  by (simp add: enrichment_step_def enrich_content_def set_extra_def distance_chunk_def
        new_chunk_def dict_get_def py_iter_def default_enhancer_config_def)

lemma distance_tagging:
  "tagging_step example_runtime (set_extra ''generated_qa'' v distance_chunk)
     = Inl (attribute_error ''Core'' ''start_time'',
            set_extra ''enhanced'' (PBool True)
              (set_extra ''generated_qa'' v distance_chunk))"
proof -
  have "assign_domain_tags (ascii ''12 km'') = []"
    by (simp add: assign_domain_tags_def contains_any_def ascii_def sublist_Cons_right)
  then show ?thesis
    by (simp add: tagging_step_def set_extra_def distance_chunk_def new_chunk_def
          example_runtime_def loguru_start_time_def)
qed

lemma distance_enhanced:
  "fst (enhancer_process_single example_runtime default_enhancer_config init_enhancer_state
          distance_chunk)
     = Inr (enhancer_failed (attribute_error ''Core'' ''start_time'')
              (set_extra ''enhanced'' (PBool True)
                 (set_extra ''generated_qa'' (PList [qa_entry distance_qa]) distance_chunk)))"
proof -
  have "validate_input distance_chunk"
    by (simp add: validate_input_def distance_chunk_def new_chunk_def py_strip_def ascii_def
          is_space_def)
  then show ?thesis
    by (simp add: enhancer_process_single_def distance_extraction distance_generation
          distance_enrichment distance_tagging)
qed

lemma tagging_step_raises:
  "logger_start_time E = Inl e \<Longrightarrow> \<exists>c4. tagging_step E c3 = Inl (e, c4)"
  by (simp add: tagging_step_def Let_def)

lemma enhancer_fails:
  assumes "logger_start_time E = Inl e" and "validate_input c"
  shows "\<exists>m. process_metadata (chunk_after (fst (enhancer_process_single E cfg st c)))
               = process_metadata c
                 @ [\<lparr>processor_name = enhancer_name, status = FAILED, error_message = Some m\<rparr>]"
proof -
  obtain c1 st1 where s1: "term_extraction_step E cfg st c = (c1, st1)"
    by (cases "term_extraction_step E cfg st c")
  note k1 = term_extraction_step_keeps [OF s1]
  show ?thesis
  proof (cases "qa_generation_step E cfg st1 c1")
    case (Inl es)
    with assms(2) s1 k1 show ?thesis
      by (cases es)
         (simp add: enhancer_process_single_def chunk_after_def skill_process_metadata_def)
  next
    case (Inr cs)
    obtain c2 st2 where cs: "cs = (c2, st2)" by (cases cs)
    note k2 = qa_generation_step_keeps [OF Inr [unfolded cs]]
    show ?thesis
    proof (cases "enrichment_step cfg c2")
      case (Inl e')
      with assms(2) s1 k1 Inr cs k2 show ?thesis
        by (simp add: enhancer_process_single_def chunk_after_def skill_process_metadata_def)
    next
      case r3: (Inr c3)
      note k3 = enrichment_step_keeps [OF r3]
      obtain c4 where t: "tagging_step E c3 = Inl (e, c4)"
        using tagging_step_raises [OF assms(1)] by blast
      have "process_metadata c4 = process_metadata c3"
        using tagging_step_keeps [of E c3] by (simp add: t chunk_after_def)
      with assms(2) s1 k1 Inr cs k2 r3 k3 t show ?thesis
        by (simp add: enhancer_process_single_def chunk_after_def skill_process_metadata_def)
    qed
  qed
qed

lemma evaluator_fails:
  assumes "logger_start_time E = Inl e" and "validate_input c"
  shows "\<exists>m. process_metadata (chunk_after (fst (evaluator_process_single E cfg st c)))
               = process_metadata c
                 @ [\<lparr>processor_name = evaluator_name, status = FAILED, error_message = Some m\<rparr>]"
  using assms
  by (simp add: evaluator_process_single_def record_evaluation_def chunk_after_def Let_def
        add_process_metadata_def skill_process_metadata_def split: sum.split)

text \<open>
  C8. For each of the three stages and every chunk, the history of the chunk after
  \<open>process_single\<close> has the history before it as a prefix, and after \<open>process_batch\<close>
  the history of every chunk of the batch has the history before it as a strict prefix:
  records are appended, never reordered, truncated or changed. This holds whether the
  read of the logger's start time returns or raises; when it raises, as it does with
  loguru, the Enhancer and the Evaluator append exactly one FAILED record to a chunk that
  passes \<open>validate_input\<close>.
\<close>

theorem history_append_only:
  "prefix (process_metadata c)
     (process_metadata (chunk_after (fst (cleaner_process_single E ccfg cs c))))
   \<and> prefix (process_metadata c)
       (process_metadata (chunk_after (fst (enhancer_process_single E ecfg es c))))
   \<and> prefix (process_metadata c)
       (process_metadata (chunk_after (fst (evaluator_process_single E vcfg vs c))))
   \<and> list_all2 (\<lambda>c out. strict_prefix (process_metadata c) (process_metadata out))
       data_chunks
       (fst (process_batch cleaner_name (cleaner_process_single E ccfg) cs data_chunks))
   \<and> list_all2 (\<lambda>c out. strict_prefix (process_metadata c) (process_metadata out))
       data_chunks
       (fst (process_batch enhancer_name (enhancer_process_single E ecfg) es data_chunks))
   \<and> list_all2 (\<lambda>c out. strict_prefix (process_metadata c) (process_metadata out))
       data_chunks
       (fst (process_batch evaluator_name (evaluator_process_single E vcfg) vs data_chunks))
   \<and> (logger_start_time E = loguru_start_time \<and> validate_input c \<longrightarrow>
        (\<exists>m. process_metadata (chunk_after (fst (enhancer_process_single E ecfg es c)))
                = process_metadata c
                  @ [\<lparr>processor_name = enhancer_name, status = FAILED,
                       error_message = Some m\<rparr>])
        \<and> (\<exists>m. process_metadata (chunk_after (fst (evaluator_process_single E vcfg vs c)))
                = process_metadata c
                  @ [\<lparr>processor_name = evaluator_name, status = FAILED,
                       error_message = Some m\<rparr>]))"
proof -
  have "(\<exists>m. process_metadata (chunk_after (fst (enhancer_process_single E ecfg es c)))
                = process_metadata c
                  @ [\<lparr>processor_name = enhancer_name, status = FAILED,
                       error_message = Some m\<rparr>])
        \<and> (\<exists>m. process_metadata (chunk_after (fst (evaluator_process_single E vcfg vs c)))
                = process_metadata c
                  @ [\<lparr>processor_name = evaluator_name, status = FAILED,
                       error_message = Some m\<rparr>])"
    if "logger_start_time E = loguru_start_time" and "validate_input c"
    using that enhancer_fails [of E _ c ecfg es] evaluator_fails [of E _ c vcfg vs]
    by (simp add: loguru_start_time_def)
  then show ?thesis
    by (intro conjI impI keeps_history_after cleaner_returns enhancer_returns
          evaluator_returns process_batch_grows stages_stage_like) simp_all
qed

theorem history_append_only_witness:
  "logger_start_time example_runtime = loguru_start_time
   \<and> validate_input distance_chunk
   \<and> process_metadata distance_chunk = []
   \<and> process_metadata
        (chunk_after (fst (enhancer_process_single example_runtime default_enhancer_config
                              init_enhancer_state distance_chunk)))
       = [\<lparr>processor_name = enhancer_name, status = FAILED,
            error_message = Some (exn_msg (attribute_error ''Core'' ''start_time''))\<rparr>]
   \<and> map status
        (process_metadata
           (chunk_after (fst (evaluator_process_single example_runtime default_evaluator_config
                                 init_evaluator_state distance_chunk))))
       = [FAILED]"
proof -
  have a: "logger_start_time example_runtime = loguru_start_time"
    by (simp add: example_runtime_def)
  have v: "validate_input distance_chunk"
    by (simp add: validate_input_def distance_chunk_def new_chunk_def py_strip_def ascii_def
          is_space_def)
  have p: "process_metadata distance_chunk = []"
    by (simp add: distance_chunk_def new_chunk_def)
  have h: "process_metadata
        (chunk_after (fst (enhancer_process_single example_runtime default_enhancer_config
                              init_enhancer_state distance_chunk)))
       = [\<lparr>processor_name = enhancer_name, status = FAILED,
            error_message = Some (exn_msg (attribute_error ''Core'' ''start_time''))\<rparr>]"
    by (simp add: distance_enhanced chunk_after_def p skill_process_metadata_def)
  have "\<exists>m. process_metadata
              (chunk_after (fst (evaluator_process_single example_runtime
                                   default_evaluator_config init_evaluator_state
                                   distance_chunk)))
            = process_metadata distance_chunk
              @ [\<lparr>processor_name = evaluator_name, status = FAILED, error_message = Some m\<rparr>]"
    using a v
      history_append_only [where E = example_runtime and c = distance_chunk
        and vcfg = default_evaluator_config and vs = init_evaluator_state
        and ecfg = default_enhancer_config and es = init_enhancer_state
        and ccfg = default_cleaner_config and cs = init_cleaner_state
        and data_chunks = "[]"]
    by blast
  then obtain m where "process_metadata
              (chunk_after (fst (evaluator_process_single example_runtime
                                   default_evaluator_config init_evaluator_state
                                   distance_chunk)))
            = [\<lparr>processor_name = evaluator_name, status = FAILED, error_message = Some m\<rparr>]"
    using p by auto
  then have e: "map status
        (process_metadata
           (chunk_after (fst (evaluator_process_single example_runtime default_evaluator_config
                                 init_evaluator_state distance_chunk))))
       = [FAILED]"
    by simp
  from a v p h e show ?thesis by blast
qed

subsection \<open>Filtering by quality\<close>

lemma filter_chunks_filter:
  "list_all score_entry_ok data_chunks \<Longrightarrow>
   filter_chunks t data_chunks = Inr (filter (has_quality_at_least t) data_chunks)"
proof (induction data_chunks)
  case Nil
  show ?case by simp
next
  case (Cons chunk rest)
  then have ih: "filter_chunks t rest = Inr (filter (has_quality_at_least t) rest)"
    and ok: "score_entry_ok chunk"
    by simp_all
  show ?case
  proof (cases "map_of (extra_data chunk) ''quality_score''")
    case None
    then have "\<not> has_quality_at_least t chunk"
      by (simp add: has_quality_at_least_def)
    with None show ?thesis
      by (simp add: ih dict_get_def)
  next
    case (Some v)
    show ?thesis
    proof (cases v)
      case (PScore q)
      with Some have "has_quality_at_least t chunk = (t \<le> overall_score q)"
        by (simp add: has_quality_at_least_def)
      with Some PScore show ?thesis
        by (simp add: ih dict_get_def)
    qed (use Some ok in \<open>simp_all add: ih dict_get_def has_quality_at_least_def [of t chunk]
                                     score_entry_ok_def\<close>)
  qed
qed

text \<open>
  C9. \<open>filter_by_quality(chunks, min_score)\<close> returns exactly the chunks, in their
  original order, whose bag carries a quality score with an overall score of at least
  \<open>min_score\<close>; without \<open>min_score\<close> the threshold is the configured
  \<open>min_quality_score\<close>, 0.7 when the configuration names none; a chunk without a quality
  score is left out. The bags hold, under \<open>quality_score\<close>, what the Evaluator puts
  there (a \<open>QualityScore\<close> object) or nothing.
\<close>

theorem filter_by_quality_subsequence:
  assumes "list_all score_entry_ok data_chunks"
  shows "filter_by_quality cfg data_chunks min_score =
           Inr (filter (has_quality_at_least
                          (case min_score of
                             Some m \<Rightarrow> m
                           | None \<Rightarrow> (case map_of (thresholds cfg) ''min_quality_score'' of
                                        Some t \<Rightarrow> t | None \<Rightarrow> 0.7)))
                       data_chunks)"
proof -
  have "(case min_score of None \<Rightarrow> min_quality_score cfg | Some m \<Rightarrow> m) =
        (case min_score of Some m \<Rightarrow> m
         | None \<Rightarrow> (case map_of (thresholds cfg) ''min_quality_score'' of
                      Some t \<Rightarrow> t | None \<Rightarrow> 0.7))"
    by (simp add: min_quality_score_def split: option.splits)
  then show ?thesis
    using filter_chunks_filter [OF assms] by (simp add: filter_by_quality_def)
qed

theorem filter_by_quality_subsequence_witness:
  "list_all score_entry_ok
     [scored_chunk (ascii ''a'') 0.96, scored_chunk (ascii ''b'') 0.5,
      new_chunk (ascii ''c'') (ascii ''text''), scored_chunk (ascii ''d'') 0.95]
   \<and> filter_by_quality \<lparr>quality_metrics = [], thresholds = [(''min_quality_score'', 0.95)]\<rparr>
        [scored_chunk (ascii ''a'') 0.96, scored_chunk (ascii ''b'') 0.5,
         new_chunk (ascii ''c'') (ascii ''text''), scored_chunk (ascii ''d'') 0.95] None
      = Inr [scored_chunk (ascii ''a'') 0.96, scored_chunk (ascii ''d'') 0.95]"
proof -
  have ok: "list_all score_entry_ok
     [scored_chunk (ascii ''a'') 0.96, scored_chunk (ascii ''b'') 0.5,
      new_chunk (ascii ''c'') (ascii ''text''), scored_chunk (ascii ''d'') 0.95]"
    by (simp add: score_entry_ok_def scored_chunk_def new_chunk_def)
  show ?thesis
    using ok filter_by_quality_subsequence [OF ok,
        of "\<lparr>quality_metrics = [], thresholds = [(''min_quality_score'', 0.95)]\<rparr>" None]
    by (simp add: has_quality_at_least_def scored_chunk_def new_chunk_def)
qed

subsection \<open>The parallel path\<close>

lemma parallel_processing_missing:
  "config_getattr c ''parallel_processing''
     = Inl (attribute_error ''PipelineConfig'' ''parallel_processing'')"
  by (simp add: config_getattr_def)

lemma parallel_requested_cases:
  "parallel_requested c =
     (if max_workers c > 1 then Inl (attribute_error ''PipelineConfig'' ''parallel_processing'')
      else Inr False)"
  by (simp add: parallel_requested_def parallel_processing_missing)
     (simp add: config_getattr_def)

lemma process_batches_raises:
  "max_workers (pipeline_config P) > 1 \<Longrightarrow>
   process_batches E P skill_name st chunk_list bs
     = (Inl (attribute_error ''PipelineConfig'' ''parallel_processing''), st)"
  by (simp add: process_batches_def parallel_requested_cases)

lemma process_skills_raises:
  assumes "max_workers (pipeline_config P) > 1" and "\<exists>n \<in> set names. n \<in> set (skills P)"
  shows "process_skills E P names st chunk_list
           = (Inl (attribute_error ''PipelineConfig'' ''parallel_processing''), st)"
  using assms(2)
proof (induction names)
  case Nil
  then show ?case by simp
next
  case (Cons n names)
  then show ?case
    by (cases "n \<in> set (skills P)") (simp_all add: process_batches_raises [OF assms(1)])
qed

lemma report_raises:
  "get_processing_report P st = Inl (attribute_error ''PipelineConfig'' ''parallel_processing'')"
  by (simp add: get_processing_report_def Let_def parallel_processing_missing)
     (simp add: config_getattr_def)

text \<open>C10. The configuration object has no attribute \<open>parallel_processing\<close>. With
  \<open>max_workers\<close> above one, the test of \<open>_process_batches\<close> therefore never yields true,
  so the parallel path is never taken: the test raises \<open>AttributeError\<close>, and so does every
  call of \<open>_process_batches\<close>. The report raises the same error whatever the configuration.
  \<open>process_files\<close> catches the error and returns a failed result with its message, as soon as
  the parsed files give a chunk and one of the three stages is enabled.\<close>
theorem parallel_attribute_error:
  assumes "max_workers (pipeline_config P) > 1"
  shows "parallel_requested c \<noteq> Inr True
       \<and> parallel_requested (pipeline_config P)
           = Inl (attribute_error ''PipelineConfig'' ''parallel_processing'')
       \<and> process_batches E P skill_name st chunk_list bs
           = (Inl (attribute_error ''PipelineConfig'' ''parallel_processing''), st)
       \<and> get_processing_report P st
           = Inl (attribute_error ''PipelineConfig'' ''parallel_processing'')
       \<and> (fst (parse_all F (error_handling (pipeline_config P)) file_paths
                 ((processing_stats st)\<lparr>total_files := length file_paths\<rparr>)) = Inr all_chunks
          \<and> all_chunks \<noteq> []
          \<and> (''cleaner'' \<in> set (skills P) \<or> ''enhancer'' \<in> set (skills P)
               \<or> ''evaluator'' \<in> set (skills P))
          \<longrightarrow> success (fst (process_files E F P st file_paths output_path)) = False
              \<and> data (fst (process_files E F P st file_paths output_path)) = None
              \<and> result_error_message (fst (process_files E F P st file_paths output_path))
                  = Some (exn_msg (attribute_error ''PipelineConfig'' ''parallel_processing'')))"
proof -
  have files: "success (fst (process_files E F P st file_paths output_path)) = False
              \<and> data (fst (process_files E F P st file_paths output_path)) = None
              \<and> result_error_message (fst (process_files E F P st file_paths output_path))
                  = Some (exn_msg (attribute_error ''PipelineConfig'' ''parallel_processing''))"
    if p: "fst (parse_all F (error_handling (pipeline_config P)) file_paths
                 ((processing_stats st)\<lparr>total_files := length file_paths\<rparr>)) = Inr all_chunks"
      and ne: "all_chunks \<noteq> []"
      and sk: "''cleaner'' \<in> set (skills P) \<or> ''enhancer'' \<in> set (skills P)
               \<or> ''evaluator'' \<in> set (skills P)"
  proof -
    obtain stats where pa: "parse_all F (error_handling (pipeline_config P)) file_paths
                 ((processing_stats st)\<lparr>total_files := length file_paths\<rparr>) = (Inr all_chunks, stats)"
      using p by (cases "parse_all F (error_handling (pipeline_config P)) file_paths
                 ((processing_stats st)\<lparr>total_files := length file_paths\<rparr>)") simp
    from sk have ex: "\<exists>n \<in> set [''cleaner'', ''enhancer'', ''evaluator'']. n \<in> set (skills P)"
      by auto
    have pc: "process_chunks E P st' all_chunks
                = (Inl (attribute_error ''PipelineConfig'' ''parallel_processing''), st')" for st'
      unfolding process_chunks_def by (rule process_skills_raises [OF assms ex])
    show ?thesis
      by (simp add: process_files_def Let_def pa ne pc failure_result_def)
  qed
  show ?thesis
    using files
    by (simp add: parallel_requested_cases process_batches_raises [OF assms] report_raises assms)
qed

lemmas pipe_eval = example_pipeline_def load_pipeline_config_def init_skills_def
  default_cleaner_config_def default_enhancer_config_def default_evaluator_config_def
  example_files_def init_pipeline_state_def

theorem parallel_attribute_error_witness:
  "max_workers (pipeline_config example_pipeline) > 1
   \<and> fst (parse_all example_files (error_handling (pipeline_config example_pipeline))
             [ascii ''a.txt'']
             ((processing_stats init_pipeline_state)\<lparr>total_files := 1\<rparr>))
       = Inr [new_chunk (ascii ''a.txt'') (ascii ''river flow'')]
   \<and> ''cleaner'' \<in> set (skills example_pipeline)
   \<and> success (fst (process_files example_runtime example_files example_pipeline
                      init_pipeline_state [ascii ''a.txt''] None)) = False
   \<and> result_error_message (fst (process_files example_runtime example_files example_pipeline
                      init_pipeline_state [ascii ''a.txt''] None))
       = Some (exn_msg (attribute_error ''PipelineConfig'' ''parallel_processing''))"
proof -
  have a: "max_workers (pipeline_config example_pipeline) > 1"
    by (simp add: pipe_eval)
  have b: "fst (parse_all example_files (error_handling (pipeline_config example_pipeline))
             [ascii ''a.txt'']
             ((processing_stats init_pipeline_state)\<lparr>total_files := length [ascii ''a.txt'']\<rparr>))
       = Inr [new_chunk (ascii ''a.txt'') (ascii ''river flow'')]"
    by (simp add: pipe_eval)
  have c: "''cleaner'' \<in> set (skills example_pipeline)"
    by (simp add: pipe_eval)
  from a b c parallel_attribute_error [where P = example_pipeline and F = example_files
      and st = init_pipeline_state and file_paths = "[ascii ''a.txt'']"
      and all_chunks = "[new_chunk (ascii ''a.txt'') (ascii ''river flow'')]"
      and E = example_runtime and output_path = None, OF a]
  show ?thesis by simp
qed

subsection \<open>Rejection by the Cleaner\<close>




subsection \<open>Duplicates\<close>

lemma calculate_similarity_jaccard:
  "calculate_similarity E text1 text2
     = jaccard (set (str_lower E text1)) (set (str_lower E text2))"
  by (simp add: calculate_similarity_def jaccard_def Let_def str_lower_def)

lemma is_duplicate_detected:
  assumes "md5_of_text E text = Inr h" and "detected_duplicate E cfg st text"
  shows "is_duplicate E cfg st text cid = Inr (True, st)"
  using assms
  by (auto simp add: is_duplicate_def detected_duplicate_def calculate_similarity_jaccard
        list_ex_iff)

lemma is_duplicate_returns:
  assumes "md5_of_text E text = Inr h"
  shows "\<exists>b st'. is_duplicate E cfg st text cid = Inr (b, st')"
  using assms by (auto simp add: is_duplicate_def)

lemma is_duplicate_registers:
  assumes "md5_of_text E text = Inr h" and "is_duplicate E cfg st text cid = Inr (b, st')"
  shows "h \<in> seen_hashes st' \<or> detected_duplicate E cfg st' text"
  using assms
  by (auto simp add: is_duplicate_def detected_duplicate_def calculate_similarity_jaccard
        list_ex_iff split: if_splits)

lemma cleaner_skips:
  assumes "validate_input chunk" and "remove_duplicates cfg"
    and "quality_check cfg (cleaning_steps E cfg chunk)"
    and "md5_of_text E (cleaning_steps E cfg chunk) = Inr h"
    and "detected_duplicate E cfg st (cleaning_steps E cfg chunk)"
  shows "cleaner_process_single E cfg st chunk = (Inr (marked_skipped chunk), st)"
  using assms is_duplicate_detected [OF assms(4,5), of "chunk_id chunk"]
  by (simp add: cleaner_process_single_def Let_def marked_skipped_def add_process_metadata_def
        skill_process_metadata_def)

lemma cleaner_state_after:
  assumes "validate_input chunk" and "remove_duplicates cfg"
    and "quality_check cfg (cleaning_steps E cfg chunk)"
    and "md5_of_text E (cleaning_steps E cfg chunk) = Inr h"
  shows "detected_duplicate E cfg (snd (cleaner_process_single E cfg st chunk))
           (cleaning_steps E cfg chunk)"
proof -
  obtain b st' where d: "is_duplicate E cfg st (cleaning_steps E cfg chunk) (chunk_id chunk)
                           = Inr (b, st')"
    using is_duplicate_returns [OF assms(4)] by blast
  have "snd (cleaner_process_single E cfg st chunk) = st'"
    using assms d by (cases b) (simp_all add: cleaner_process_single_def Let_def)
  moreover have "h \<in> seen_hashes st' \<or> detected_duplicate E cfg st' (cleaning_steps E cfg chunk)"
    by (rule is_duplicate_registers [OF assms(4) d])
  ultimately show ?thesis
    using assms(4) by (auto simp add: detected_duplicate_def)
qed

text \<open>C3. A chunk that passes the quality gate and whose cleaned text is detected as a
  duplicate (its hash is registered, or its character set is more similar to a registered
  text than the threshold) is returned with its content as it came and one SKIPPED record
  appended, and the state is left as it was. In particular, after \<open>process_single\<close> has
  seen a chunk that passes the gate, a second chunk with the same content and language is
  marked SKIPPED.\<close>
theorem duplicate_marked_skipped:
  assumes "validate_input chunk" and "remove_duplicates cfg"
    and "quality_check cfg (cleaning_steps E cfg chunk)"
    and "md5_of_text E (cleaning_steps E cfg chunk) = Inr h"
  shows "(detected_duplicate E cfg st (cleaning_steps E cfg chunk) \<longrightarrow>
            cleaner_process_single E cfg st chunk = (Inr (marked_skipped chunk), st)
            \<and> content (marked_skipped chunk) = content chunk
            \<and> get_latest_status (marked_skipped chunk) = SKIPPED)
       \<and> (content other = content chunk \<and> language other = language chunk \<longrightarrow>
            cleaner_process_single E cfg (snd (cleaner_process_single E cfg st chunk)) other
              = (Inr (marked_skipped other), snd (cleaner_process_single E cfg st chunk)))"
proof (intro conjI impI)
  assume "detected_duplicate E cfg st (cleaning_steps E cfg chunk)"
  then show "cleaner_process_single E cfg st chunk = (Inr (marked_skipped chunk), st)"
    using assms by (intro cleaner_skips)
next
  show "content (marked_skipped chunk) = content chunk"
    by (simp add: marked_skipped_def)
next
  show "get_latest_status (marked_skipped chunk) = SKIPPED"
    by (simp add: marked_skipped_def get_latest_status_def)
next
  assume same: "content other = content chunk \<and> language other = language chunk"
  then have eq: "cleaning_steps E cfg other = cleaning_steps E cfg chunk"
    by (simp add: cleaning_steps_def)
  have v: "validate_input other"
    using same assms(1) by (simp add: validate_input_def)
  show "cleaner_process_single E cfg (snd (cleaner_process_single E cfg st chunk)) other
          = (Inr (marked_skipped other), snd (cleaner_process_single E cfg st chunk))"
  proof (rule cleaner_skips [where h = h])
    show "validate_input other" by (rule v)
    show "remove_duplicates cfg" by (rule assms(2))
    show "quality_check cfg (cleaning_steps E cfg other)"
      unfolding eq by (rule assms(3))
    show "md5_of_text E (cleaning_steps E cfg other) = Inr h"
      unfolding eq by (rule assms(4))
    show "detected_duplicate E cfg (snd (cleaner_process_single E cfg st chunk))
            (cleaning_steps E cfg other)"
      unfolding eq by (rule cleaner_state_after [OF assms])
  qed
qed

lemma station_basic:
  "basic_text_cleaning example_runtime default_cleaner_config station_text = station_text"
  by (simp add: rx_defs cls_defs cleaner_defs example_runtime_def default_cleaner_config_def
        station_text_def)

lemma station_language:
  "language_specific_cleaning example_runtime station_text AUTO = station_text"
  by (simp add: language_specific_cleaning_def chinese_text_cleaning_def
        english_text_cleaning_def example_runtime_def)

lemma station_advanced:
  "advanced_text_cleaning example_runtime default_cleaner_config station_text AUTO
     = station_text"
  by (simp add: rx_defs cls_defs advanced_text_cleaning_def fix_common_errors_def
        error_fixes_def punct6_def example_runtime_def default_cleaner_config_def
        station_text_def)

lemma station_cleaned:
  "cleaning_steps example_runtime default_cleaner_config (new_chunk cid station_text)
     = station_text"
  by (simp add: cleaning_steps_def new_chunk_def station_basic station_language
        station_advanced)

theorem duplicate_marked_skipped_witness:
  "validate_input (new_chunk (ascii ''c1'') station_text)
   \<and> remove_duplicates default_cleaner_config
   \<and> quality_check default_cleaner_config
        (cleaning_steps example_runtime default_cleaner_config
           (new_chunk (ascii ''c1'') station_text))
   \<and> cleaner_process_single example_runtime default_cleaner_config
        (snd (cleaner_process_single example_runtime default_cleaner_config init_cleaner_state
                (new_chunk (ascii ''c1'') station_text)))
        (new_chunk (ascii ''c2'') station_text)
       = (Inr (marked_skipped (new_chunk (ascii ''c2'') station_text)),
          snd (cleaner_process_single example_runtime default_cleaner_config init_cleaner_state
                (new_chunk (ascii ''c1'') station_text)))"
proof -
  have v: "validate_input (new_chunk (ascii ''c1'') station_text)"
    by (simp add: validate_input_def new_chunk_def py_strip_def ascii_def is_space_def
          station_text_def)
  have r: "remove_duplicates default_cleaner_config"
    by (simp add: default_cleaner_config_def)
  have q: "quality_check default_cleaner_config
        (cleaning_steps example_runtime default_cleaner_config
           (new_chunk (ascii ''c1'') station_text))"
    unfolding station_cleaned
    by (simp add: quality_check_def default_cleaner_config_def py_strip_def ascii_def
          is_space_def quality_hydro_keywords_def station_text_def Let_def)
  have h: "md5_of_text example_runtime
             (cleaning_steps example_runtime default_cleaner_config
                (new_chunk (ascii ''c1'') station_text))
           = Inr (map (\<lambda>c. char_of (c mod 256)) station_text)"
    unfolding station_cleaned by (simp add: example_runtime_def)
  from v r q
    duplicate_marked_skipped [where other = "new_chunk (ascii ''c2'') station_text"
      and st = init_cleaner_state, OF v r q h]
  show ?thesis
    by (simp add: new_chunk_def)
qed

subsection \<open>The question and answer pairs of the dataset\<close>

lemma qa_from_list_entries:
  "qa_from_list (map qa_entry generated) = Inr (map question_and_answer generated)"
  by (induction generated)
     (simp_all add: qa_entry_def qa_from_kwargs_def qa_fields_def dict_get_def
        question_and_answer_def)

lemma collect_generated:
  "collect_qa_pairs [set_extra ''generated_qa'' (PList (map qa_entry generated)) chunk]
     = Inr (map question_and_answer generated)"
  by (simp add: set_extra_def update_conv' py_iter_def qa_from_list_entries
        map_of_map_restrict)

lemma failed_keeps_generated:
  "map_of (extra_data (enhancer_failed e
              (set_extra ''enhanced'' b (set_extra ''generated_qa'' v chunk))))
          ''generated_qa''
     = Some v"
  by (simp add: enhancer_failed_def add_process_metadata_def set_extra_def update_conv')

text \<open>C4. The Enhancer stores only the question and the answer of each pair it generates,
  so the pairs that \<open>process_files\<close> rebuilds from \<open>generated_qa\<close> have the context, the
  domain and the confidence \<open>None\<close>, whatever the Enhancer had computed for them. For the
  example chunk the Enhancer generates a pair with confidence 0.7 and the domain
  U+6570 U+636E; the pair of the dataset has neither.\<close>
theorem generated_qa_not_verbatim:
  "collect_qa_pairs [set_extra ''generated_qa'' (PList (map qa_entry generated)) chunk]
     = Inr (map question_and_answer generated)
   \<and> generate_qa_pairs example_runtime default_enhancer_config distance_chunk 0
       = (Inr [distance_qa], 0)
   \<and> confidence distance_qa = PFloat 0.7
   \<and> domain distance_qa = PStr [25968, 25454]
   \<and> qa_context distance_qa = PStr (ascii ''12 km'')
   \<and> map_sum id (map confidence)
        (collect_qa_pairs
           [chunk_after (fst (enhancer_process_single example_runtime default_enhancer_config
                                 init_enhancer_state distance_chunk))])
       = Inr [PNone]
   \<and> collect_qa_pairs
        [chunk_after (fst (enhancer_process_single example_runtime default_enhancer_config
                              init_enhancer_state distance_chunk))]
       = Inr [question_and_answer distance_qa]"
proof -
  have c: "collect_qa_pairs
        [chunk_after (fst (enhancer_process_single example_runtime default_enhancer_config
                              init_enhancer_state distance_chunk))]
       = Inr [question_and_answer distance_qa]"
    using failed_keeps_generated [of "attribute_error ''Core'' ''start_time''" "PBool True"
            "PList [qa_entry distance_qa]" distance_chunk]
      qa_from_list_entries [of "[distance_qa]"]
    by (simp add: distance_enhanced chunk_after_def py_iter_def)
  have m: "map_sum id (map confidence)
        (collect_qa_pairs
           [chunk_after (fst (enhancer_process_single example_runtime default_enhancer_config
                                 init_enhancer_state distance_chunk))])
       = Inr [PNone]"
    unfolding c by (simp add: question_and_answer_def)
  have f: "confidence distance_qa = PFloat 0.7" "domain distance_qa = PStr [25968, 25454]"
    "qa_context distance_qa = PStr (ascii ''12 km'')"
    by (simp_all add: distance_qa_def make_qa_def)
  show ?thesis
    by (intro conjI collect_generated distance_generated f m c)
qed

subsection \<open>The bounds of the scores\<close>

lemma unit_min: "0 \<le> x \<Longrightarrow> unit_interval (min 1 x)"
  by (simp add: unit_interval_def)

lemma unit_max_min: "unit_interval (max 0 (min 1 x))"
  by (simp add: unit_interval_def)

lemma nonneg_if: "0 \<le> a \<Longrightarrow> 0 \<le> b \<Longrightarrow> (0::real) \<le> (if c then a else b)"
  by simp

lemma nonneg_min: "0 \<le> x \<Longrightarrow> (0::real) \<le> min 1 x"
  by simp

lemma np_var_nonneg: "0 \<le> np_var xs"
  unfolding np_var_def Let_def
  by (intro divide_nonneg_nonneg sum_list_nonneg) auto

lemma domain_score_nonneg:
  "0 \<le> (\<Sum>pattern \<leftarrow> ps. if re_search pattern text then 0.25 else (0::real))"
  by (rule sum_list_nonneg) auto

lemmas nonneg_intros = nonneg_if nonneg_min add_nonneg_nonneg mult_nonneg_nonneg
  divide_nonneg_nonneg np_var_nonneg domain_score_nonneg

lemma completeness_bounds:
  assumes "py_len (dict_get (extra_data chunk) ''extracted_terms'' (PList [])) = Inr n"
  shows "\<exists>v. evaluate_completeness E text chunk = Inr v \<and> unit_interval v"
proof -
  have "\<exists>s. evaluate_completeness E text chunk = Inr (min 1 s) \<and> 0 \<le> s"
    unfolding evaluate_completeness_def Let_def assms sum.case
    apply (rule exI, rule conjI, rule refl)
    apply (intro nonneg_intros)
    apply simp_all
    done
  then show ?thesis
    using unit_min by blast
qed

lemma relevance_bounds: "unit_interval (evaluate_relevance E text lang)"
  unfolding evaluate_relevance_def Let_def
  by (intro unit_min nonneg_intros) simp_all

lemma consistency_bounds: "unit_interval (evaluate_consistency E text lang)"
  unfolding evaluate_consistency_def Let_def
  by (rule unit_max_min)

lemma diversity_value_bounds: "unit_interval (diversity_value E text lang)"
  unfolding diversity_value_def Let_def
  by (intro unit_min nonneg_intros) simp_all

lemma diversity_bounds:
  "(evaluate_diversity E text lang = Inr v \<longrightarrow> unit_interval v)
   \<and> (numpy_imported E \<or> length (diversity_sentences text) \<le> 1 \<longrightarrow>
        evaluate_diversity E text lang = Inr (diversity_value E text lang))"
  using diversity_value_bounds [of E "text" lang]
  by (auto simp add: evaluate_diversity_def)

lemma weight_of_pos: "0 < weight_of metric"
  by (simp add: weight_of_def metric_weights_def)

lemma overall_fold:
  "fold (\<lambda>(metric, score) (overall, total_weight).
           let weight = (case map_of metric_weights metric of None \<Rightarrow> 0.25 | Some w \<Rightarrow> w)
           in (overall + score * weight, total_weight + weight))
        scores (x, t)
     = (x + (\<Sum>(metric, score) \<leftarrow> scores. score * weight_of metric),
        t + (\<Sum>(metric, score) \<leftarrow> scores. weight_of metric))"
  by (induction scores arbitrary: x t) (auto simp add: weight_of_def Let_def)

lemma weights_nonneg: "0 \<le> (\<Sum>(metric, score) \<leftarrow> scores. weight_of metric)"
  by (rule sum_list_nonneg) (auto simp add: less_imp_le [OF weight_of_pos])

lemma overall_weighted_mean: "calculate_overall_score scores = weighted_mean scores"
  using weights_nonneg [of scores]
  by (simp add: calculate_overall_score_def overall_fold weighted_mean_def)

lemma weighted_sum_bounds:
  assumes "list_all (\<lambda>(metric, score). unit_interval score) scores"
  shows "0 \<le> (\<Sum>(metric, score) \<leftarrow> scores. score * weight_of metric)
       \<and> (\<Sum>(metric, score) \<leftarrow> scores. score * weight_of metric)
           \<le> (\<Sum>(metric, score) \<leftarrow> scores. weight_of metric)"
  using assms
proof (induction scores)
  case Nil
  then show ?case by simp
next
  case (Cons a scores)
  obtain metric score where a: "a = (metric, score)" by (cases a)
  have u: "0 \<le> score" "score \<le> 1"
    using Cons.prems by (simp_all add: a unit_interval_def)
  have "0 \<le> score * weight_of metric"
    using u weight_of_pos [of metric] by simp
  moreover have "score * weight_of metric \<le> weight_of metric"
    using u weight_of_pos [of metric] by (simp add: mult_left_le_one_le)
  ultimately show ?case
    using Cons by (simp add: a)
qed

lemma overall_bounds:
  assumes "list_all (\<lambda>(metric, score). unit_interval score) scores"
  shows "unit_interval (calculate_overall_score scores)"
proof (cases "(\<Sum>(metric, score) \<leftarrow> scores. weight_of metric) = 0")
  case True
  then show ?thesis
    by (simp add: overall_weighted_mean weighted_mean_def unit_interval_def)
next
  case False
  then have "0 < (\<Sum>(metric, score) \<leftarrow> scores. weight_of metric)"
    using weights_nonneg [of scores] by simp
  then show ?thesis
    using weighted_sum_bounds [OF assms]
    by (simp add: overall_weighted_mean weighted_mean_def unit_interval_def)
qed

lemma update_unit:
  "list_all (\<lambda>(metric, score). unit_interval score) scores \<Longrightarrow> unit_interval v \<Longrightarrow>
   list_all (\<lambda>(metric, score). unit_interval score) (AList.update k v scores)"
  by (induction scores) auto

lemma score_get_unit:
  "list_all (\<lambda>(metric, score). unit_interval score) scores \<Longrightarrow>
   unit_interval (score_get scores metric)"
  by (auto simp add: score_get_def unit_interval_def list_all_iff split: option.split
        dest!: map_of_SomeD)

lemma quality_bounds:
  assumes "py_len (dict_get (extra_data chunk) ''extracted_terms'' (PList [])) = Inr n"
    and "numpy_imported E \<or> length (diversity_sentences (content chunk)) \<le> 1"
  shows "\<exists>q. evaluate_quality E cfg chunk = Inr q
             \<and> unit_interval (overall_score q) \<and> unit_interval (completeness_score q)
             \<and> unit_interval (relevance_score q) \<and> unit_interval (consistency_score q)
             \<and> unit_interval (diversity_score q)
             \<and> overall_score q = weighted_mean (details q)"
proof -
  have "\<exists>s0. (if ''completeness'' \<in> set (quality_metrics cfg)
               then map_sum id (\<lambda>v. [(''completeness'', v)])
                      (evaluate_completeness E (content chunk) chunk)
               else Inr []) = Inr s0
            \<and> list_all (\<lambda>(metric, score). unit_interval score) s0"
    using completeness_bounds [OF assms(1), of E "content chunk"]
    by (cases "''completeness'' \<in> set (quality_metrics cfg)") auto
  then obtain s0 where s0: "(if ''completeness'' \<in> set (quality_metrics cfg)
               then map_sum id (\<lambda>v. [(''completeness'', v)])
                      (evaluate_completeness E (content chunk) chunk)
               else Inr []) = Inr s0"
    and u0: "list_all (\<lambda>(metric, score). unit_interval score) s0"
    by blast
  define s1 where "s1 = (if ''relevance'' \<in> set (quality_metrics cfg)
       then AList.update ''relevance'' (evaluate_relevance E (content chunk) (language chunk)) s0
       else s0)"
  define s2 where "s2 = (if ''consistency'' \<in> set (quality_metrics cfg)
       then AList.update ''consistency''
              (evaluate_consistency E (content chunk) (language chunk)) s1
       else s1)"
  define s3 where "s3 = (if ''diversity'' \<in> set (quality_metrics cfg)
       then AList.update ''diversity'' (diversity_value E (content chunk) (language chunk)) s2
       else s2)"
  have u1: "list_all (\<lambda>(metric, score). unit_interval score) s1"
    unfolding s1_def using u0 by (simp add: update_unit relevance_bounds)
  have u2: "list_all (\<lambda>(metric, score). unit_interval score) s2"
    unfolding s2_def using u1 by (simp add: update_unit consistency_bounds)
  have u3: "list_all (\<lambda>(metric, score). unit_interval score) s3"
    unfolding s3_def using u2 by (simp add: update_unit diversity_value_bounds)
  have d: "evaluate_diversity E (content chunk) (language chunk)
             = Inr (diversity_value E (content chunk) (language chunk))"
    using assms(2) diversity_bounds [of E "content chunk" "language chunk"] by blast
  have "evaluate_quality E cfg chunk
          = Inr \<lparr>overall_score = calculate_overall_score s3,
                  completeness_score = score_get s3 ''completeness'',
                  relevance_score = score_get s3 ''relevance'',
                  consistency_score = score_get s3 ''consistency'',
                  diversity_score = score_get s3 ''diversity'',
                  details = s3\<rparr>"
    unfolding evaluate_quality_def Let_def s0 d s1_def s2_def s3_def by simp
  moreover have "unit_interval (calculate_overall_score s3)"
    by (rule overall_bounds [OF u3])
  moreover have "calculate_overall_score s3 = weighted_mean s3"
    by (rule overall_weighted_mean)
  ultimately show ?thesis
    using u3 by (simp add: score_get_unit)
qed

text \<open>C5. With \<open>numpy\<close> imported and an \<open>extracted_terms\<close> entry that has a length (or
  none), each of the four sub-score functions returns a value between 0 and 1 for every
  text and language; the overall score is the weighted sum of the sub-scores over the sum
  of their weights and lies between 0 and 1 whenever the sub-scores do; and
  \<open>_evaluate_quality\<close> returns a score object whose five scores lie between 0 and 1.\<close>
theorem score_bounds:
  assumes "py_len (dict_get (extra_data chunk) ''extracted_terms'' (PList [])) = Inr n"
    and "numpy_imported E"
  shows "(\<exists>v. evaluate_completeness E text chunk = Inr v \<and> 0 \<le> v \<and> v \<le> 1)
       \<and> 0 \<le> evaluate_relevance E text lang \<and> evaluate_relevance E text lang \<le> 1
       \<and> 0 \<le> evaluate_consistency E text lang \<and> evaluate_consistency E text lang \<le> 1
       \<and> (\<exists>v. evaluate_diversity E text lang = Inr v \<and> 0 \<le> v \<and> v \<le> 1)
       \<and> calculate_overall_score scores = weighted_mean scores
       \<and> (list_all (\<lambda>(metric, score). 0 \<le> score \<and> score \<le> 1) scores \<longrightarrow>
            0 \<le> calculate_overall_score scores \<and> calculate_overall_score scores \<le> 1)
       \<and> (\<exists>q. evaluate_quality E cfg chunk = Inr q
               \<and> unit_interval (overall_score q) \<and> unit_interval (completeness_score q)
               \<and> unit_interval (relevance_score q) \<and> unit_interval (consistency_score q)
               \<and> unit_interval (diversity_score q)
               \<and> overall_score q = weighted_mean (details q))"
proof -
  have "\<exists>v. evaluate_diversity E text lang = Inr v \<and> 0 \<le> v \<and> v \<le> 1"
    using assms(2) diversity_bounds [of E "text" lang "diversity_value E text lang"]
    by (auto simp add: unit_interval_def)
  then show ?thesis
    using completeness_bounds [OF assms(1), of E "text"] relevance_bounds [of E "text" lang]
      consistency_bounds [of E "text" lang]
      overall_weighted_mean [of scores] overall_bounds [of scores]
      quality_bounds [OF assms(1), of E cfg] assms(2)
    unfolding unit_interval_def by blast
qed

theorem score_bounds_witness:
  "py_len (dict_get (extra_data distance_chunk) ''extracted_terms'' (PList [])) = Inr 0
   \<and> numpy_imported example_runtime
   \<and> list_all (\<lambda>(metric, score). 0 \<le> score \<and> score \<le> 1)
        [(''completeness'', 1 / 2 :: real), (''relevance'', 1)]
   \<and> calculate_overall_score [(''completeness'', 1 / 2), (''relevance'', 1)] = 17 / 22
   \<and> 0 \<le> evaluate_relevance example_runtime (ascii ''12 km'') AUTO
   \<and> evaluate_relevance example_runtime (ascii ''12 km'') AUTO \<le> 1"
proof -
  have a: "py_len (dict_get (extra_data distance_chunk) ''extracted_terms'' (PList [])) = Inr 0"
    by (simp add: distance_chunk_def new_chunk_def dict_get_def py_len_def)
  have b: "numpy_imported example_runtime"
    by (simp add: example_runtime_def)
  have w: "weighted_mean [(''completeness'', 1 / 2), (''relevance'', 1)] = 17 / 22"
    by (simp add: weighted_mean_def weight_of_def metric_weights_def)
  from a b w score_bounds [OF a b, of "ascii ''12 km''" AUTO
      "[(''completeness'', 1 / 2), (''relevance'', 1)]"]
  show ?thesis by simp
qed

subsection \<open>Basic cleaning applied twice\<close>


















































end
